theory Spec2Isabelle
  imports Complex_Main
begin

section \<open>Data model of the monitor toggle (src/lib/toggle.js)\<close>

text \<open>
  The extension talks to the display-configuration service over D-Bus and keeps the
  service's positional tuples as JavaScript arrays. The records below name the tuple
  positions the code reads:
  \<^item> a mode \<open>mode[0]\<close> (id), \<open>mode[1]\<close> (width), \<open>mode[2]\<close> (height) and the two
    flags \<open>mode[6]['is-current']\<close>, \<open>mode[6]['is-preferred']\<close> (an absent flag reads as
    false, as the optional chaining of the source does);
  \<^item> a physical monitor \<open>p[0][0]\<close> (connector), \<open>p[0][1]\<close> (vendor), \<open>p[0][2]\<close>
    (product) and \<open>p[1]\<close> (its modes);
  \<^item> a logical monitor \<open>lm[0] .. lm[6]\<close>: x, y, scale, transform, isPrimary, monitors,
    properties.
  Coordinates are integers (JavaScript numbers holding D-Bus int32 values; the code never
  wraps them). The scale is a D-Bus double; it is modelled by a rational number.
  Mode ids are D-Bus strings, so the test \<open>typeof mode[0] === 'string'\<close> of the source is
  true of every mode and is not written.

  The asynchronous methods \<open>_getMonitorConfig\<close>, \<open>_toggleMonitor\<close> and \<open>_makePrimary\<close>
  are functions from the answers of the service (and of the legacy reader) to a
  transformer of the toggle's state; the state holds the logger and the list of the calls
  made on the service, so that what a run logs and submits can be read off the state it
  leaves. One method runs at a time: the only thing that can happen while a call is
  pending is \<open>destroy\<close>. The menu, the indicator's visibility and the dialog are the
  shell's and are left out; the one exception of the shell's code that the model follows
  is one thrown while the dialog is opened from its timer.
\<close>

type_synonym connector = string
type_synonym mode_id = string

record mode =
  m_id :: mode_id
  m_width :: int
  m_height :: int
  m_is_current :: bool
  m_is_preferred :: bool

record physical_monitor =
  pm_connector :: connector
  pm_vendor :: string
  pm_product :: string
  pm_modes :: "mode list"

text \<open>
  An entry of \<open>lm[5]\<close>. The service reports \<open>(connector, vendor, product, serial)\<close>; a
  layout built for submission holds \<open>[connector, modeId, {}]\<close>. The code reads only
  position 0 of either.
\<close>

datatype lm_monitor =
    MonitorSpec connector string string string
  | Assignment connector mode_id

fun mon_connector :: "lm_monitor \<Rightarrow> connector" where
  "mon_connector (MonitorSpec c v p s) = c"
| "mon_connector (Assignment c m) = c"

record logical_monitor =
  lm_x :: int
  lm_y :: int
  lm_scale :: rat
  lm_transform :: nat
  lm_isPrimary :: bool
  lm_monitors :: "lm_monitor list"
  lm_properties :: "(string \<times> string) list"

section \<open>normalizePositions\<close>

text \<open>
  The loop of \<open>normalizePositions\<close>: \<open>minX\<close> and \<open>minY\<close> start at \<open>Infinity\<close>, written
  \<open>None\<close>, and every entry lowers them when it is strictly smaller.
\<close>

fun lower :: "int option \<Rightarrow> int \<Rightarrow> int option" where
  "lower None v = Some v"
| "lower (Some m) v = (if v < m then Some v else Some m)"

fun min_scan :: "int option \<times> int option \<Rightarrow> logical_monitor list \<Rightarrow> int option \<times> int option" where
  "min_scan acc [] = acc"
| "min_scan (minX, minY) (lm # rest) = min_scan (lower minX (lm_x lm), lower minY (lm_y lm)) rest"

definition shift_by :: "int \<Rightarrow> int \<Rightarrow> logical_monitor \<Rightarrow> logical_monitor" where
  "shift_by minX minY lm = lm\<lparr>lm_x := lm_x lm - minX, lm_y := lm_y lm - minY\<rparr>"

definition normalizePositions :: "logical_monitor list \<Rightarrow> logical_monitor list" where
  "normalizePositions logicalMonitors =
     (if logicalMonitors = [] then logicalMonitors
      else case min_scan (None, None) logicalMonitors of
        (Some minX, Some minY) \<Rightarrow>
          if minX = 0 \<and> minY = 0 then logicalMonitors
          else map (shift_by minX minY) logicalMonitors
      | _ \<Rightarrow> logicalMonitors)"

section \<open>fixPrimaryFlags\<close>

text \<open>
  \<open>fixPrimaryFlags\<close> mutates the entries of its argument in place; the model returns the
  list as it stands afterwards. \<open>fix_loop first\<close> is the \<open>for\<close> loop with its flag.
\<close>

fun fix_loop :: "bool \<Rightarrow> logical_monitor list \<Rightarrow> logical_monitor list" where
  "fix_loop first [] = []"
| "fix_loop first (lm # rest) =
     (if lm_isPrimary lm
      then (if \<not> first then lm\<lparr>lm_isPrimary := False\<rparr> else lm) # fix_loop False rest
      else lm # fix_loop first rest)"

definition fixPrimaryFlags :: "logical_monitor list \<Rightarrow> logical_monitor list" where
  "fixPrimaryFlags logicalMonitors =
     (let primaries = filter lm_isPrimary logicalMonitors
      in if length primaries \<le> 1 then logicalMonitors else fix_loop True logicalMonitors)"

section \<open>Logger (src/lib/logger.js)\<close>

text \<open>
  The logger is module state: \<open>_enabled\<close> (false until \<open>initLogger\<close> reads the
  \<open>debug-logging\<close> setting), \<open>_sequence\<close> and \<open>_opCounter\<close>. \<open>lg_console\<close> holds the
  lines written to the console, oldest first; a line keeps its sequence number, level and
  event, and the payload's \<open>reason\<close> or \<open>detail\<close> where the caller gives one (the
  timestamp and the rest of the payload are left out).
\<close>

datatype level = DEBUG | INFO | WARN | ERROR

record log_line =
  ll_seq :: nat
  ll_level :: level
  ll_event :: string
  ll_detail :: string

record logger =
  lg_enabled :: bool
  lg_sequence :: nat
  lg_opCounter :: nat
  lg_console :: "log_line list"

definition emit :: "level \<Rightarrow> string \<Rightarrow> string \<Rightarrow> logger \<Rightarrow> logger" where
  "emit lvl event detail lg =
     (if \<not> lg_enabled lg then lg
      else lg\<lparr>lg_sequence := lg_sequence lg + 1,
              lg_console := lg_console lg
                @ [\<lparr>ll_seq = lg_sequence lg + 1, ll_level = lvl, ll_event = event,
                    ll_detail = detail\<rparr>]\<rparr>)"

definition nextOpId :: "logger \<Rightarrow> logger" where
  "nextOpId lg = lg\<lparr>lg_opCounter := lg_opCounter lg + 1\<rparr>"

definition logDebug :: "string \<Rightarrow> string \<Rightarrow> logger \<Rightarrow> logger" where
  "logDebug event detail = emit DEBUG event detail"

definition logInfo :: "string \<Rightarrow> string \<Rightarrow> logger \<Rightarrow> logger" where
  "logInfo event detail = emit INFO event detail"

definition logError :: "string \<Rightarrow> string \<Rightarrow> logger \<Rightarrow> logger" where
  "logError event detail = emit ERROR event detail"

definition logStep :: "string \<Rightarrow> logger \<Rightarrow> logger" where
  "logStep detail = logDebug ''step'' detail"

text \<open>The ERROR lines of a console.\<close>

definition error_lines :: "logger \<Rightarrow> log_line list" where
  "error_lines lg = filter (\<lambda>l. ll_level l = ERROR) (lg_console lg)"

section \<open>State of a toggle (class SecondMonitorToggle)\<close>

text \<open>
  The snapshot is a JavaScript object from connector to
  \<open>{x, y, scale, transform, isPrimary, modeId}\<close>; \<open>modeId\<close> is \<open>null\<close> (\<open>None\<close>) when
  the connector had no mode flagged current. The object is an association list in
  insertion order: \<open>Object.entries\<close> lists string keys in that order (connector names such
  as \<open>DP-1\<close> or \<open>HDMI-A-1\<close> are not array indices, which JavaScript would list first, nor
  names of members of \<open>Object.prototype\<close>, which a lookup would find in an empty object),
  and an assignment to a key already there replaces its value in place, so the keys of a
  snapshot are distinct.
\<close>

record snap =
  s_x :: int
  s_y :: int
  s_scale :: rat
  s_transform :: nat
  s_isPrimary :: bool
  s_modeId :: "mode_id option"

fun snapshot_put :: "connector \<Rightarrow> snap \<Rightarrow> (connector \<times> snap) list \<Rightarrow> (connector \<times> snap) list" where
  "snapshot_put conn s [] = [(conn, s)]"
| "snapshot_put conn s ((k, v) # rest) =
     (if k = conn then (k, s) # rest else (k, v) # snapshot_put conn s rest)"

text \<open>
  The calls made on the service proxy, oldest first. \<open>ApplyMonitorsConfig\<close> carries the
  serial, the persistence mode, the layout and the properties.
  \<open>ApplyAfterDivisionByZero\<close> stands for the submit call of a run in which a division by
  a zero scale entered the layout (see \<open>round_div\<close>): the call is made as any other, but
  the model does not describe its layout (which holds the appended entry, so it is not
  empty).
\<close>

datatype service_call =
    GetCurrentState
  | ApplyMonitorsConfig nat nat "logical_monitor list" "(string \<times> nat) list"
  | ApplyAfterDivisionByZero

text \<open>The timer set by \<open>_scheduleConfigRefresh\<close>: its error event, and whether its
  \<open>onSuccess\<close> makes the toggle sensitive again. \<open>t_primaryDialogTimeoutId\<close> says
  whether the timer of the make-primary prompt is pending.\<close>

record refresh_timer =
  rt_errorEvent :: string
  rt_reenable :: bool

text \<open>
  \<open>t_proxy\<close> says that \<open>this._proxy\<close> is not null: \<open>_initProxy\<close> runs once, in the
  constructor, so the proxy is either the one created there or null after \<open>destroy\<close>, and
  the source's test \<open>this._proxy !== proxy\<close> after an await is \<open>\<not> t_proxy\<close>.
  \<open>t_monitor\<close> is \<open>this._monitor\<close>, null being \<open>None\<close>. \<open>t_settings_monitor\<close> is the
  value of the \<open>monitor-setting\<close> key of the settings store. The menu and its cache are
  not modelled.
\<close>

record toggle =
  t_proxy :: bool
  t_indicator :: bool
  t_monitors :: "physical_monitor list"
  t_logicalMonitors :: "logical_monitor list"
  t_serial :: nat
  t_layoutMode :: nat
  t_supportsChangingLayoutMode :: bool
  t_monitor :: "connector option"
  t_persistenceMode :: nat
  t_snapshot :: "(connector \<times> snap) list"
  t_configRefreshTimeoutId :: "refresh_timer option"
  t_primaryDialogTimeoutId :: bool
  t_toggling :: bool
  t_checked :: bool
  t_sensitive :: bool
  t_subtitle :: string
  t_settings_monitor :: string
  t_logger :: logger
  t_calls :: "service_call list"

text \<open>JavaScript truthiness of a value that is null or a string: the empty string is falsy.\<close>

fun truthy :: "string option \<Rightarrow> bool" where
  "truthy None = False"
| "truthy (Some s) = (s \<noteq> [])"

text \<open>Logging from a method of the toggle.\<close>

definition logging :: "(logger \<Rightarrow> logger) \<Rightarrow> toggle \<Rightarrow> toggle" where
  "logging f st = st\<lparr>t_logger := f (t_logger st)\<rparr>"

definition call :: "service_call \<Rightarrow> toggle \<Rightarrow> toggle" where
  "call c st = st\<lparr>t_calls := t_calls st @ [c]\<rparr>"

subsection \<open>destroy, _disableToggle, timers\<close>

definition destroy :: "toggle \<Rightarrow> toggle" where
  "destroy st =
     logging (logInfo ''toggle.destroy.done'' [])
       ((logging (logInfo ''toggle.destroy.start'' []) st)
          \<lparr>t_proxy := False, t_configRefreshTimeoutId := None,
           t_primaryDialogTimeoutId := False, t_indicator := False, t_monitor := None,
           t_monitors := [], t_logicalMonitors := [], t_snapshot := []\<rparr>)"

definition disableToggle :: "string \<Rightarrow> toggle \<Rightarrow> toggle" where
  "disableToggle reason st =
     (if \<not> t_proxy st then st
      else logging (logError ''toggle.disabled'' reason)
             (st\<lparr>t_checked := False, t_sensitive := False\<rparr>))"

definition scheduleConfigRefresh :: "string \<Rightarrow> bool \<Rightarrow> toggle \<Rightarrow> toggle" where
  "scheduleConfigRefresh errorEvent reenable st =
     (if \<not> t_proxy st then st
      else st\<lparr>t_configRefreshTimeoutId :=
                 Some \<lparr>rt_errorEvent = errorEvent, rt_reenable = reenable\<rparr>\<rparr>)"

text \<open>
  The wrapper \<open>_resetTimeout\<close> puts around a timer callback, at the moment the timer
  fires: the timer id is cleared (the callbacks of the model do that themselves), the
  callback runs, and an exception it throws is caught and logged. A callback is a
  function from the state to the state it leaves and whether it threw.
\<close>

definition timeout_fired :: "(toggle \<Rightarrow> toggle \<times> bool) \<Rightarrow> toggle \<Rightarrow> toggle" where
  "timeout_fired callback st =
     (case callback st of
        (st', threw) \<Rightarrow>
          if threw then logging (logError ''toggle.timeout.callback.error'' []) st' else st')"

definition updateIndicatorVisibility :: "toggle \<Rightarrow> toggle" where
  "updateIndicatorVisibility st =
     (if \<not> t_proxy st then st
      else if t_indicator st then logging (logDebug ''toggle.indicator.visibility'' []) st
      else st)"

text \<open>\<open>lm[5].some(m => m[0] === this._monitor)\<close> for some logical monitor.\<close>

definition holds_connector :: "connector option \<Rightarrow> logical_monitor \<Rightarrow> bool" where
  "holds_connector c lm = list_ex (\<lambda>m. Some (mon_connector m) = c) (lm_monitors lm)"

definition selected_active :: "toggle \<Rightarrow> bool" where
  "selected_active st = list_ex (holds_connector (t_monitor st)) (t_logicalMonitors st)"

definition sync :: "toggle \<Rightarrow> toggle" where
  "sync st =
     (if \<not> t_proxy st then st
      else logging (logDebug ''toggle.sync'' [])
             (updateIndicatorVisibility (st\<lparr>t_checked := selected_active st\<rparr>)))"

section \<open>_resolveModeId\<close>

text \<open>
  The argument is a connector or \<open>undefined\<close> (\<open>None\<close>: what \<open>lm[5][0]?.[0]\<close> gives for
  a logical monitor with no monitors), which equals no physical monitor's connector.
\<close>

definition resolveModeId :: "toggle \<Rightarrow> connector option \<Rightarrow> mode_id option" where
  "resolveModeId st connector =
     (case connector of
        None \<Rightarrow> None
      | Some conn \<Rightarrow>
         (case find (\<lambda>p. pm_connector p = conn) (t_monitors st) of
            None \<Rightarrow> None
          | Some phys \<Rightarrow>
             (let snapMode = (case map_of (t_snapshot st) conn of
                                None \<Rightarrow> None
                              | Some s \<Rightarrow> s_modeId s)
              in if truthy snapMode \<and> list_ex (\<lambda>m. Some (m_id m) = snapMode) (pm_modes phys)
                 then snapMode
                 else (case find m_is_current (pm_modes phys) of
                         Some current \<Rightarrow> Some (m_id current)
                       | None \<Rightarrow>
                          (case find m_is_preferred (pm_modes phys) of
                             Some preferred \<Rightarrow> Some (m_id preferred)
                           | None \<Rightarrow>
                              (case pm_modes phys of
                                 [] \<Rightarrow> None
                               | first # rest \<Rightarrow> Some (m_id first)))))))"

section \<open>_getMonitorConfig\<close>

text \<open>
  What the service answers to \<open>GetCurrentStateAsync\<close>: a failure, or the serial, the
  physical monitors, the logical monitors and the two properties the code reads
  (\<open>layout-mode\<close> and \<open>supports-changing-layout-mode\<close>, each possibly absent). A reply
  also says whether \<open>destroy\<close> ran while the call was pending; no other method runs
  during an await in this model.
\<close>

datatype fetch_result =
    FetchFailed
  | Fetched nat "physical_monitor list" "logical_monitor list" "nat option" "bool option"

record fetch_reply =
  fr_torn_down :: bool
  fr_result :: fetch_result

text \<open>
  The full-coverage test \<open>allActive\<close>: there is a physical monitor, and the connector of
  every physical monitor is held by some logical monitor.
\<close>

definition allActive :: "physical_monitor list \<Rightarrow> logical_monitor list \<Rightarrow> bool" where
  "allActive monitors newLogicalMonitors =
     (monitors \<noteq> []
      \<and> list_all (\<lambda>physMon.
           list_ex (holds_connector (Some (pm_connector physMon))) newLogicalMonitors) monitors)"

text \<open>The two nested loops that fill the fresh snapshot.\<close>

definition snapshot_entry :: "physical_monitor list \<Rightarrow> logical_monitor \<Rightarrow> connector \<Rightarrow> snap" where
  "snapshot_entry monitors lm conn =
     \<lparr>s_x = lm_x lm, s_y = lm_y lm, s_scale = lm_scale lm, s_transform = lm_transform lm,
      s_isPrimary = lm_isPrimary lm,
      s_modeId = (case find (\<lambda>p. pm_connector p = conn) monitors of
                    None \<Rightarrow> None
                  | Some phys \<Rightarrow>
                     (case find m_is_current (pm_modes phys) of
                        None \<Rightarrow> None
                      | Some curMode \<Rightarrow> Some (m_id curMode)))\<rparr>"

fun snapshot_monitors ::
  "physical_monitor list \<Rightarrow> logical_monitor \<Rightarrow> lm_monitor list
     \<Rightarrow> (connector \<times> snap) list \<Rightarrow> (connector \<times> snap) list" where
  "snapshot_monitors monitors lm [] acc = acc"
| "snapshot_monitors monitors lm (m # ms) acc =
     snapshot_monitors monitors lm ms
       (snapshot_put (mon_connector m) (snapshot_entry monitors lm (mon_connector m)) acc)"

fun snapshot_layout ::
  "physical_monitor list \<Rightarrow> logical_monitor list
     \<Rightarrow> (connector \<times> snap) list \<Rightarrow> (connector \<times> snap) list" where
  "snapshot_layout monitors [] acc = acc"
| "snapshot_layout monitors (lm # lms) acc =
     snapshot_layout monitors lms (snapshot_monitors monitors lm (lm_monitors lm) acc)"

text \<open>The choice of \<open>this._monitor\<close> when none is selected yet.\<close>

definition select_monitor :: "toggle \<Rightarrow> connector option" where
  "select_monitor st =
     (if \<not> truthy (t_monitor st) \<and> t_monitors st \<noteq> []
      then (let savedConnector = t_settings_monitor st;
                monitorExists = list_ex (\<lambda>m. pm_connector m = savedConnector) (t_monitors st)
            in if savedConnector \<noteq> [] \<and> monitorExists then Some savedConnector
               else (case t_monitors st of
                       [only] \<Rightarrow> Some (pm_connector only)
                     | a # b # rest \<Rightarrow> Some (pm_connector b)
                     | [] \<Rightarrow> t_monitor st))
      else t_monitor st)"

text \<open>
  The body of the \<open>try\<close> block after a successful answer, on a live proxy.
  \<open>newLogicalMonitors\<close> has been through \<open>fixPrimaryFlags\<close> already.
\<close>

definition ingest ::
  "nat \<Rightarrow> physical_monitor list \<Rightarrow> logical_monitor list \<Rightarrow> nat option \<Rightarrow> bool option
     \<Rightarrow> toggle \<Rightarrow> toggle" where
  "ingest serial newMonitors newLogicalMonitors layoutMode supports st =
     (let st1 = logging (logStep ''GetCurrentStateAsync completed'') st;
          st2 = st1\<lparr>t_serial := serial, t_monitors := newMonitors,
                    t_logicalMonitors := newLogicalMonitors\<rparr>;
          st3 = (if allActive newMonitors newLogicalMonitors
                 then logging (logStep ''snapshot saved (all monitors active)'')
                        (st2\<lparr>t_snapshot := snapshot_layout newMonitors newLogicalMonitors []\<rparr>)
                 else st2);
          st4 = st3\<lparr>t_layoutMode := (case layoutMode of None \<Rightarrow> 1 | Some v \<Rightarrow> v),
                    t_supportsChangingLayoutMode :=
                      (case supports of None \<Rightarrow> False | Some b \<Rightarrow> b)\<rparr>;
          st5 = st4\<lparr>t_monitor := select_monitor st4\<rparr>;
          st6 = (sync st5)\<lparr>t_sensitive := True\<rparr>
      in logging (logInfo ''toggle.config.fetch.done'' []) st6)"

definition getMonitorConfig :: "fetch_reply \<Rightarrow> toggle \<Rightarrow> toggle" where
  "getMonitorConfig reply st =
     (if \<not> t_proxy st then st
      else
        (let st1 = call GetCurrentState
                     (logging (logStep ''start GetCurrentStateAsync'') (logging nextOpId st));
             st2 = (if fr_torn_down reply then destroy st1 else st1)
         in case fr_result reply of
              Fetched serial newMonitors newLogicalMonitors layoutMode supports \<Rightarrow>
                if \<not> t_proxy st2 then st2
                else ingest serial newMonitors (fixPrimaryFlags newLogicalMonitors)
                       layoutMode supports st2
            | FetchFailed \<Rightarrow>
                if \<not> t_proxy st2 then st2
                else disableToggle ''config-fetch-error''
                       ((logging (logError ''toggle.config.fetch.error'' []) st2)
                          \<lparr>t_subtitle := ''Error''\<rparr>)))"

section \<open>_toggleMonitor\<close>

subsection \<open>Disable branch\<close>

text \<open>
  The \<open>map\<close> and \<open>filter\<close> that remove the selected connector: a logical monitor left
  without monitors is dropped, the others keep every field but their monitors.
\<close>

definition remove_selected :: "connector option \<Rightarrow> logical_monitor list \<Rightarrow> logical_monitor list" where
  "remove_selected sel lms =
     List.map_filter
       (\<lambda>lm. let filtered = filter (\<lambda>m. Some (mon_connector m) \<noteq> sel) (lm_monitors lm)
             in if filtered = [] then None else Some (lm\<lparr>lm_monitors := filtered\<rparr>))
       lms"

text \<open>An assignment to a field of \<open>finalLogicalMonitors[0]\<close> (the list is not empty where
  the source makes one).\<close>

fun on_first :: "(logical_monitor \<Rightarrow> logical_monitor) \<Rightarrow> logical_monitor list \<Rightarrow> logical_monitor list" where
  "on_first f [] = []"
| "on_first f (lm # rest) = f lm # rest"

definition to_origin :: "logical_monitor list \<Rightarrow> logical_monitor list" where
  "to_origin lms = (if length lms = 1 then on_first (\<lambda>lm. lm\<lparr>lm_x := 0, lm_y := 0\<rparr>) lms else lms)"

definition promote_first :: "logical_monitor list \<Rightarrow> logical_monitor list" where
  "promote_first lms =
     (if \<not> list_ex lm_isPrimary lms \<and> lms \<noteq> []
      then on_first (\<lambda>lm. lm\<lparr>lm_isPrimary := True\<rparr>) lms else lms)"

subsection \<open>Enable branch\<close>

text \<open>
  \<open>this._snapshot[this._monitor]\<close>: a null \<open>this._monitor\<close> reads the property named
  \<open>null\<close>.
\<close>

definition snapshot_of_selected :: "toggle \<Rightarrow> snap option" where
  "snapshot_of_selected st =
     map_of (t_snapshot st) (case t_monitor st of None \<Rightarrow> ''null'' | Some c \<Rightarrow> c)"

definition hasSnapshot :: "toggle \<Rightarrow> bool" where
  "hasSnapshot st = (snapshot_of_selected st \<noteq> None \<and> length (t_snapshot st) > 1)"

text \<open>The loop over \<open>Object.entries(this._snapshot)\<close>.\<close>

definition restore_entry :: "toggle \<Rightarrow> connector \<times> snap \<Rightarrow> logical_monitor option" where
  "restore_entry st e =
     (case e of (conn, s) \<Rightarrow>
        (case resolveModeId st (Some conn) of
           None \<Rightarrow> None
         | Some modeId \<Rightarrow>
             if modeId = [] then None
             else if \<not> list_ex (\<lambda>p. pm_connector p = conn) (t_monitors st) then None
             else Some \<lparr>lm_x = s_x s, lm_y = s_y s, lm_scale = s_scale s,
                        lm_transform = s_transform s, lm_isPrimary = s_isPrimary s,
                        lm_monitors = [Assignment conn modeId], lm_properties = []\<rparr>))"

definition restore_from_snapshot :: "toggle \<Rightarrow> logical_monitor list" where
  "restore_from_snapshot st = List.map_filter (restore_entry st) (t_snapshot st)"

text \<open>
  What the legacy reader \<open>loadMonitorConfigFromMonitorsXML\<close> returns for the selected
  connector is an input of the model: \<open>None\<close> for \<open>null\<close>, or the scale and transform
  it read.
\<close>

record xml_conf =
  xc_scale :: rat
  xc_transform :: nat

text \<open>
  \<open>Math.round(m[1] / lm[2])\<close>: the quotient rounded to the nearest integer, a half
  rounded up. The model divides exactly, where JavaScript rounds the quotient to a double
  before \<open>Math.round\<close>; the two give the same integer unless the exact quotient lies
  within a rounding error of a half-integer. For a zero scale JavaScript computes
  \<open>Infinity\<close>, \<open>-Infinity\<close> or \<open>NaN\<close> and goes on with it; the model writes \<open>None\<close>
  and does not follow the value further.
\<close>

definition round_div :: "int \<Rightarrow> rat \<Rightarrow> int option" where
  "round_div w scale = (if scale = 0 then None else Some \<lfloor>of_int w / scale + 1 / 2\<rfloor>)"

text \<open>\<open>lm[5][0]?.[0]\<close>\<close>

definition first_connector :: "logical_monitor \<Rightarrow> connector option" where
  "first_connector lm = (case lm_monitors lm of [] \<Rightarrow> None | m # ms \<Rightarrow> Some (mon_connector m))"

text \<open>The right edge one logical monitor contributes to \<open>maxRight\<close>: \<open>None\<close> when the
  loop body skips it, \<open>Some None\<close> when its scale is zero.\<close>

definition right_edge :: "toggle \<Rightarrow> logical_monitor \<Rightarrow> int option option" where
  "right_edge st lm =
     (case first_connector lm of
        None \<Rightarrow> None
      | Some conn \<Rightarrow>
         (case (find (\<lambda>p. pm_connector p = conn) (t_monitors st), resolveModeId st (Some conn)) of
            (Some phys, Some mode) \<Rightarrow>
              if mode = [] then None
              else (case find (\<lambda>md. m_id md = mode) (pm_modes phys) of
                      None \<Rightarrow> None
                    | Some m \<Rightarrow>
                       (case round_div (m_width m) (lm_scale lm) of
                          None \<Rightarrow> Some None
                        | Some r \<Rightarrow> Some (Some (lm_x lm + r))))
          | _ \<Rightarrow> None))"

fun maxRight_loop :: "toggle \<Rightarrow> int option \<Rightarrow> logical_monitor list \<Rightarrow> int option" where
  "maxRight_loop st maxRight [] = maxRight"
| "maxRight_loop st maxRight (lm # rest) =
     maxRight_loop st
       (case right_edge st lm of
          None \<Rightarrow> maxRight
        | Some None \<Rightarrow> None
        | Some (Some e) \<Rightarrow> (case maxRight of None \<Rightarrow> None | Some v \<Rightarrow> Some (max v e)))
       rest"

text \<open>
  The re-resolution of a logical monitor's mode, used by the fallback, by the
  finalization step and by \<open>_makePrimary\<close>: the entry is dropped when its first connector
  has no truthy mode id, and otherwise keeps its position, scale, transform and primary
  flag with the single assignment \<open>[conn, modeId, {}]\<close> and empty properties.
\<close>

definition reresolve :: "toggle \<Rightarrow> logical_monitor \<Rightarrow> logical_monitor option" where
  "reresolve st lm =
     (case first_connector lm of
        None \<Rightarrow> None
      | Some conn \<Rightarrow>
         (case resolveModeId st (Some conn) of
            None \<Rightarrow> None
          | Some modeId \<Rightarrow>
              if modeId = [] then None
              else Some (lm\<lparr>lm_monitors := [Assignment conn modeId], lm_properties := []\<rparr>)))"

text \<open>
  The outcome of the branch that builds \<open>finalLogicalMonitors\<close>: a candidate layout, a
  candidate the model does not describe because a zero scale entered \<open>maxRight\<close>, or one
  of the early returns.
\<close>

datatype candidate =
    Candidate "logical_monitor list"
  | DividedByZero
  | NoMonitorsLeft
  | PhysicalMonitorNotFound
  | NoModeForMonitor

definition disable_branch :: "toggle \<Rightarrow> candidate" where
  "disable_branch st =
     (let finalLogicalMonitors = remove_selected (t_monitor st) (t_logicalMonitors st)
      in if finalLogicalMonitors = [] then NoMonitorsLeft
         else Candidate (promote_first (to_origin finalLogicalMonitors)))"

definition enable_fallback :: "xml_conf option \<Rightarrow> toggle \<Rightarrow> candidate" where
  "enable_fallback xmlConf st =
     (case find (\<lambda>p. Some (pm_connector p) = t_monitor st) (t_monitors st) of
        None \<Rightarrow> PhysicalMonitorNotFound
      | Some physMon \<Rightarrow>
         (let scale = (case xmlConf of None \<Rightarrow> 1 | Some c \<Rightarrow> xc_scale c);
              transform = (case xmlConf of None \<Rightarrow> 0 | Some c \<Rightarrow> xc_transform c);
              maxRight = maxRight_loop st (Some 0) (t_logicalMonitors st);
              kept = List.map_filter (reresolve st) (t_logicalMonitors st)
          in case resolveModeId st (t_monitor st) of
               None \<Rightarrow> NoModeForMonitor
             | Some modeId \<Rightarrow>
                 if modeId = [] then NoModeForMonitor
                 else (case (maxRight, t_monitor st) of
                         (Some x, Some conn) \<Rightarrow>
                           Candidate (kept @ [\<lparr>lm_x = x, lm_y = 0, lm_scale = scale,
                                                lm_transform = transform, lm_isPrimary = False,
                                                lm_monitors = [Assignment conn modeId],
                                                lm_properties = []\<rparr>])
                       | _ \<Rightarrow> DividedByZero)))"

definition enable_branch :: "xml_conf option \<Rightarrow> toggle \<Rightarrow> candidate" where
  "enable_branch xmlConf st =
     (case (if hasSnapshot st then Candidate (restore_from_snapshot st)
            else enable_fallback xmlConf st) of
        Candidate lms \<Rightarrow> Candidate (promote_first (fixPrimaryFlags lms))
      | other \<Rightarrow> other)"

subsection \<open>Finalization and submission\<close>

definition propertiesToApply :: "toggle \<Rightarrow> (string \<times> nat) list" where
  "propertiesToApply st =
     (if t_supportsChangingLayoutMode st then [(''layout-mode'', t_layoutMode st)] else [])"

text \<open>
  What the service answers to \<open>ApplyMonitorsConfigAsync\<close>: whether it applied the layout
  (the promise resolves) or rejected it (the promise rejects), and whether \<open>destroy\<close> ran
  while the call was pending.
\<close>

record submit_reply =
  sr_torn_down :: bool
  sr_applied :: bool

text \<open>
  The inputs of one run of \<open>_toggleMonitor\<close>: the answer to the fetch at its start, what
  the legacy reader returns, the answer to the re-fetch of an aborted run, and the answer
  to the submit call.
\<close>

record toggle_env =
  e_fetch :: fetch_reply
  e_xmlConf :: "xml_conf option"
  e_refetch :: fetch_reply
  e_submit :: submit_reply

text \<open>From \<open>const proxy = this._proxy\<close> to the end of the \<open>try\<close> block.\<close>

definition submit_layout :: "service_call \<Rightarrow> bool \<Rightarrow> submit_reply \<Rightarrow> toggle \<Rightarrow> toggle" where
  "submit_layout apply isActive reply st =
     (if \<not> t_proxy st then st
      else
        (let st1 = call apply st;
             st2 = (if sr_torn_down reply then destroy st1 else st1)
         in if sr_applied reply
            then (if \<not> t_proxy st2 then st2
                  else
                    (let st3 = logging (logInfo ''toggle.action.apply.success'' []) st2;
                         st4 = updateIndicatorVisibility (st3\<lparr>t_checked := \<not> isActive\<rparr>);
                         st5 = scheduleConfigRefresh ''toggle.action.refresh.error'' False st4
                     in if \<not> isActive then st5\<lparr>t_primaryDialogTimeoutId := True\<rparr> else st5))
            else (if \<not> t_proxy st2 then st2
                  else scheduleConfigRefresh ''toggle.action.recovery.error'' True
                         (disableToggle ''apply-config-error''
                            (logging (logError ''toggle.action.apply.error'' []) st2)))))"

definition abort_run :: "string \<Rightarrow> fetch_reply \<Rightarrow> toggle \<Rightarrow> toggle" where
  "abort_run reason refetch st =
     getMonitorConfig refetch (logging (logError ''toggle.action.abort'' reason) st)"

text \<open>
  The finalization step: every entry's mode is re-resolved, and an entry without one is
  dropped.
\<close>

definition finalize :: "toggle \<Rightarrow> logical_monitor list \<Rightarrow> logical_monitor list" where
  "finalize st lms = List.map_filter (reresolve st) lms"

text \<open>An entry the finalization step leaves as it is.\<close>

definition resolved :: "toggle \<Rightarrow> logical_monitor \<Rightarrow> bool" where
  "resolved st lm = (reresolve st lm = Some lm)"

text \<open>The branch a run takes: disable when the selected connector is active, enable
  otherwise.\<close>

definition build_candidate :: "toggle_env \<Rightarrow> toggle \<Rightarrow> candidate" where
  "build_candidate env st =
     (if selected_active st then disable_branch st else enable_branch (e_xmlConf env) st)"

text \<open>
  The \<open>try\<close> block of \<open>_toggleMonitor\<close> after its fetch: \<open>st\<close> is the state the
  fetch leaves.
\<close>

definition plan_and_submit :: "toggle_env \<Rightarrow> toggle \<Rightarrow> toggle" where
  "plan_and_submit env st =
     (if \<not> t_proxy st then st
      else
        (let isActive = selected_active st;
             st1 = (if isActive then logging (logStep ''disabling monitor'') st
                    else logging
                           (logStep (if hasSnapshot st then ''restoring from snapshot''
                                     else ''no snapshot, placing to right''))
                           (logging (logStep ''enabling monitor'') st))
         in case build_candidate env st of
              NoMonitorsLeft \<Rightarrow> abort_run ''no monitors left'' (e_refetch env) st1
            | PhysicalMonitorNotFound \<Rightarrow> disableToggle ''physical-monitor-not-found'' st1
            | NoModeForMonitor \<Rightarrow> disableToggle ''no-mode-for-monitor'' st1
            | DividedByZero \<Rightarrow>
                submit_layout ApplyAfterDivisionByZero isActive (e_submit env)
                  (logging (logStep ''final layout to apply'') st1)
            | Candidate lms \<Rightarrow>
                (let finalLogicalMonitors = finalize st lms
                 in if finalLogicalMonitors = []
                    then abort_run ''no valid monitors after resolve'' (e_refetch env) st1
                    else submit_layout
                           (ApplyMonitorsConfig (t_serial st) (t_persistenceMode st)
                              (normalizePositions finalLogicalMonitors) (propertiesToApply st))
                           isActive (e_submit env)
                           (logging (logStep ''final layout to apply'') st1))))"

text \<open>
  \<open>_toggleMonitor\<close>: the single-flight guard, the start of the run, the fetch, the
  \<open>try\<close> block and the \<open>finally\<close> block. \<open>fetched env st\<close> is the state a run
  started in \<open>st\<close> plans from.
\<close>

definition run_start :: "toggle \<Rightarrow> toggle" where
  "run_start st =
     logging (logInfo ''toggle.action.start'' []) (logging nextOpId (st\<lparr>t_toggling := True\<rparr>))"

definition fetched :: "toggle_env \<Rightarrow> toggle \<Rightarrow> toggle" where
  "fetched env st = getMonitorConfig (e_fetch env) (run_start st)"

definition run_end :: "toggle \<Rightarrow> toggle" where
  "run_end st = logging (logInfo ''toggle.action.end'' []) (st\<lparr>t_toggling := False\<rparr>)"

definition toggleMonitor :: "toggle_env \<Rightarrow> toggle \<Rightarrow> toggle" where
  "toggleMonitor env st =
     (if \<not> t_proxy st \<or> t_toggling st then st
      else run_end (plan_and_submit env (fetched env st)))"

section \<open>_makePrimary\<close>





section \<open>Timer callbacks\<close>

text \<open>
  The callback of the make-primary prompt's timer. Opening the dialog is the shell's
  code; whether it throws is an input.
\<close>

definition primaryDialog_callback :: "bool \<Rightarrow> toggle \<Rightarrow> toggle \<times> bool" where
  "primaryDialog_callback dialog_throws st =
     (let st1 = st\<lparr>t_primaryDialogTimeoutId := False\<rparr>
      in if \<not> t_proxy st1 then (st1, False)
         else (logging (logInfo ''toggle.dialog.make_primary.show'' []) st1, dialog_throws))"

section \<open>_init\<close>

text \<open>Modelled from the spec: the constant \<open>PERSISTENT_MODE\<close> of \<open>dbusService.js\<close>, which
  is not among the sources; the spec gives the persisted persistence mode the valid values
  1 and 2 and the default 1.\<close>

definition PERSISTENT_MODE :: nat where
  "PERSISTENT_MODE = 1"

text \<open>
  The state the constructor \<open>_init\<close> leaves, for the logger it finds, the
  \<open>mode-setting\<close> and the \<open>monitor-setting\<close>: the proxy is created, nothing is fetched
  yet. A quick-settings toggle starts unchecked and sensitive.
\<close>

definition init :: "logger \<Rightarrow> nat \<Rightarrow> string \<Rightarrow> toggle" where
  "init lg modeSetting savedConnector =
     \<lparr>t_proxy = True, t_indicator = True, t_monitors = [], t_logicalMonitors = [],
      t_serial = 0, t_layoutMode = 1, t_supportsChangingLayoutMode = False,
      t_monitor = None,
      t_persistenceMode = (if modeSetting = 1 \<or> modeSetting = 2 then modeSetting
                           else PERSISTENT_MODE),
      t_snapshot = [], t_configRefreshTimeoutId = None, t_primaryDialogTimeoutId = False,
      t_toggling = False, t_checked = False, t_sensitive = True, t_subtitle = [],
      t_settings_monitor = savedConnector,
      t_logger = logInfo ''toggle.init.done'' []
                   (logInfo ''toggle.proxy.init.start'' [] (nextOpId lg)),
      t_calls = []\<rparr>"

section \<open>Observations of the log\<close>

text \<open>The number of ERROR lines, whether logging is on and the console, as fields of a
  toggle state.\<close>

definition errors :: "toggle \<Rightarrow> nat" where
  "errors st = length (error_lines (t_logger st))"

definition debug_logging :: "toggle \<Rightarrow> bool" where
  "debug_logging st = lg_enabled (t_logger st)"

definition console :: "toggle \<Rightarrow> log_line list" where
  "console st = lg_console (t_logger st)"

section \<open>Example data\<close>

text \<open>
  A logical monitor at scale 1 with the normal transform and no extra properties, for the
  concrete layouts at which the theorems below are instantiated.
\<close>

definition lm_at :: "int \<Rightarrow> int \<Rightarrow> bool \<Rightarrow> lm_monitor list \<Rightarrow> logical_monitor" where
  "lm_at x y p ms =
     \<lparr>lm_x = x, lm_y = y, lm_scale = 1, lm_transform = 0, lm_isPrimary = p,
      lm_monitors = ms, lm_properties = []\<rparr>"

definition logger0 :: "bool \<Rightarrow> logger" where
  "logger0 enabled = \<lparr>lg_enabled = enabled, lg_sequence = 0, lg_opCounter = 0, lg_console = []\<rparr>"

text \<open>
  The scenario of the specification: two physical monitors A and B, each with one
  1920x1080 mode flagged current, A at the origin and primary, B to its right.
\<close>

definition mode_cur :: "mode_id \<Rightarrow> int \<Rightarrow> int \<Rightarrow> mode" where
  "mode_cur i w h = \<lparr>m_id = i, m_width = w, m_height = h, m_is_current = True, m_is_preferred = False\<rparr>"

definition mode_off :: "mode_id \<Rightarrow> int \<Rightarrow> int \<Rightarrow> mode" where
  "mode_off i w h = \<lparr>m_id = i, m_width = w, m_height = h, m_is_current = False, m_is_preferred = False\<rparr>"

definition phys :: "connector \<Rightarrow> mode list \<Rightarrow> physical_monitor" where
  "phys c ms = \<lparr>pm_connector = c, pm_vendor = ''VND'', pm_product = ''Display'', pm_modes = ms\<rparr>"

definition spec_of :: "connector \<Rightarrow> lm_monitor" where
  "spec_of c = MonitorSpec c ''VND'' ''Display'' ''0001''"

definition monitors_AB :: "physical_monitor list" where
  "monitors_AB = [phys ''A'' [mode_cur ''m1'' 1920 1080], phys ''B'' [mode_cur ''m2'' 1920 1080]]"

definition layout_AB :: "logical_monitor list" where
  "layout_AB = [lm_at 0 0 True [spec_of ''A''], lm_at 1920 0 False [spec_of ''B'']]"

definition answer :: "nat \<Rightarrow> physical_monitor list \<Rightarrow> logical_monitor list \<Rightarrow> fetch_reply" where
  "answer serial ms lms = \<lparr>fr_torn_down = False, fr_result = Fetched serial ms lms None None\<rparr>"

definition failure :: fetch_reply where
  "failure = \<lparr>fr_torn_down = False, fr_result = FetchFailed\<rparr>"

definition applied :: submit_reply where
  "applied = \<lparr>sr_torn_down = False, sr_applied = True\<rparr>"


text \<open>The state after the first fetch of the scenario, with B the selected connector, and
  the run that disables B from the initial state.\<close>

definition st_AB :: toggle where
  "st_AB = getMonitorConfig (answer 7 monitors_AB layout_AB) (init (logger0 True) 1 ''B'')"

definition env_disable_B :: toggle_env where
  "env_disable_B =
     \<lparr>e_fetch = answer 7 monitors_AB layout_AB, e_xmlConf = None, e_refetch = failure,
      e_submit = applied\<rparr>"

text \<open>A registry whose snapshot records the empty string as the mode id of A, while A
  offers a mode with that id and flags another mode current.\<close>

definition snap_empty_id :: snap where
  "snap_empty_id =
     \<lparr>s_x = 0, s_y = 0, s_scale = 1, s_transform = 0, s_isPrimary = True, s_modeId = Some []\<rparr>"

definition st_empty_id :: toggle where
  "st_empty_id =
     (init (logger0 False) 1 ''A'')
       \<lparr>t_monitors := [phys ''A'' [mode_off [] 800 600, mode_cur ''m2'' 1920 1080]],
        t_snapshot := [(''A'', snap_empty_id)]\<rparr>"



definition env_enable_B :: toggle_env where
  "env_enable_B =
     \<lparr>e_fetch = answer 8 monitors_AB [lm_at 0 0 True [spec_of ''A'']], e_xmlConf = None,
      e_refetch = failure, e_submit = applied\<rparr>"







text \<open>The snapshot entries of A and B in the scenario.\<close>

definition snap_A :: snap where
  "snap_A = \<lparr>s_x = 0, s_y = 0, s_scale = 1, s_transform = 0, s_isPrimary = True,
              s_modeId = Some ''m1''\<rparr>"

definition snap_B :: snap where
  "snap_B = \<lparr>s_x = 1920, s_y = 0, s_scale = 1, s_transform = 0, s_isPrimary = False,
              s_modeId = Some ''m2''\<rparr>"

text \<open>
  A and B mirrored: the service reports one primary logical monitor at the origin that
  holds both. The run that disables B from there, and the state it leaves.
\<close>

definition snap_mirror :: "mode_id \<Rightarrow> snap" where
  "snap_mirror i = \<lparr>s_x = 0, s_y = 0, s_scale = 1, s_transform = 0, s_isPrimary = True,
                     s_modeId = Some i\<rparr>"

definition env_mirror_disable_B :: toggle_env where
  "env_mirror_disable_B =
     \<lparr>e_fetch = answer 7 monitors_AB [lm_at 0 0 True [spec_of ''A'', spec_of ''B'']],
      e_xmlConf = None, e_refetch = failure, e_submit = applied\<rparr>"

definition st_mirror_B_disabled :: toggle where
  "st_mirror_B_disabled = toggleMonitor env_mirror_disable_B (init (logger0 True) 1 ''B'')"

section \<open>Properties of normalizePositions\<close>

lemma lower_Some_min: "lower (Some m) v = Some (min m v)"
  by (simp add: min_def)

lemma min_scan_Some:
  "min_scan (Some a, Some b) lms =
     (Some (Min (insert a (lm_x ` set lms))), Some (Min (insert b (lm_y ` set lms))))"
proof (induction lms arbitrary: a b)
  case Nil
  show ?case by simp
next
  case (Cons lm rest)
  have x: "Min (insert (min a (lm_x lm)) (lm_x ` set rest)) = Min (insert a (insert (lm_x lm) (lm_x ` set rest)))"
    by (cases "set rest = {}") (simp_all add: min.assoc)
  have y: "Min (insert (min b (lm_y lm)) (lm_y ` set rest)) = Min (insert b (insert (lm_y lm) (lm_y ` set rest)))"
    by (cases "set rest = {}") (simp_all add: min.assoc)
  have "min_scan (Some a, Some b) (lm # rest)
          = min_scan (Some (min a (lm_x lm)), Some (min b (lm_y lm))) rest"
    by (simp add: min_def)
  then show ?case
    by (simp only: Cons.IH x y list.set image_insert)
qed

lemma min_scan_nonempty:
  assumes "lms \<noteq> []"
  shows "min_scan (None, None) lms = (Some (Min (lm_x ` set lms)), Some (Min (lm_y ` set lms)))"
proof (cases lms)
  case Nil
  with assms show ?thesis by simp
next
  case (Cons lm rest)
  then show ?thesis by (simp add: min_scan_Some)
qed

lemma normalizePositions_shift:
  assumes "lms \<noteq> []"
  shows "normalizePositions lms = map (shift_by (Min (lm_x ` set lms)) (Min (lm_y ` set lms))) lms"
proof -
  have id: "map (shift_by 0 0) lms = lms"
    by (induction lms) (simp_all add: shift_by_def)
  show ?thesis
    using assms by (auto simp: normalizePositions_def min_scan_nonempty id)
qed

lemma Min_image_shift:
  fixes f :: "'a \<Rightarrow> int"
  assumes "finite S" "S \<noteq> {}"
  shows "Min ((\<lambda>a. f a - c) ` S) = Min (f ` S) - c"
proof -
  have "mono (\<lambda>v::int. v - c)" by (simp add: mono_def)
  then have "(\<lambda>v. v - c) (Min (f ` S)) = Min ((\<lambda>v. v - c) ` (f ` S))"
    using assms by (intro mono_Min_commute) auto
  then show ?thesis by (simp add: image_image)
qed

text \<open>
  Claim C4. For every non-empty list, the list returned by \<open>normalizePositions\<close> has
  minimum x equal to 0 and minimum y equal to 0, has the same length, keeps the difference
  of the x coordinates and of the y coordinates of every pair of entries, and changes no
  field of an entry other than x and y.
\<close>

theorem normalizePositions_origin_and_offsets:
  assumes "lms \<noteq> []"
  shows "Min (lm_x ` set (normalizePositions lms)) = 0
       \<and> Min (lm_y ` set (normalizePositions lms)) = 0
       \<and> length (normalizePositions lms) = length lms
       \<and> (\<forall>i<length lms. \<forall>j<length lms.
             lm_x (normalizePositions lms ! i) - lm_x (normalizePositions lms ! j)
               = lm_x (lms ! i) - lm_x (lms ! j)
           \<and> lm_y (normalizePositions lms ! i) - lm_y (normalizePositions lms ! j)
               = lm_y (lms ! i) - lm_y (lms ! j))
       \<and> (\<forall>i<length lms.
             (normalizePositions lms ! i)\<lparr>lm_x := lm_x (lms ! i), lm_y := lm_y (lms ! i)\<rparr> = lms ! i)"
proof -
  let ?mx = "Min (lm_x ` set lms)" and ?my = "Min (lm_y ` set lms)"
  have n: "normalizePositions lms = map (shift_by ?mx ?my) lms"
    using assms by (rule normalizePositions_shift)
  have ne: "set lms \<noteq> {}" using assms by simp
  have ix: "lm_x ` set (normalizePositions lms) = (\<lambda>lm. lm_x lm - ?mx) ` set lms"
    by (simp add: n image_image shift_by_def)
  have iy: "lm_y ` set (normalizePositions lms) = (\<lambda>lm. lm_y lm - ?my) ` set lms"
    by (simp add: n image_image shift_by_def)
  have c1: "Min (lm_x ` set (normalizePositions lms)) = 0"
    using ne by (simp add: ix Min_image_shift)
  have c2: "Min (lm_y ` set (normalizePositions lms)) = 0"
    using ne by (simp add: iy Min_image_shift)
  have c3: "length (normalizePositions lms) = length lms"
    by (simp add: n)
  have c4: "\<forall>i<length lms. \<forall>j<length lms.
             lm_x (normalizePositions lms ! i) - lm_x (normalizePositions lms ! j)
               = lm_x (lms ! i) - lm_x (lms ! j)
           \<and> lm_y (normalizePositions lms ! i) - lm_y (normalizePositions lms ! j)
               = lm_y (lms ! i) - lm_y (lms ! j)"
    by (simp add: n shift_by_def)
  have c5: "\<forall>i<length lms.
             (normalizePositions lms ! i)\<lparr>lm_x := lm_x (lms ! i), lm_y := lm_y (lms ! i)\<rparr> = lms ! i"
    by (simp add: n shift_by_def)
  from c1 c2 c3 c4 c5 show ?thesis by blast
qed

text \<open>The theorem at a layout with a negative x and a positive minimum y.\<close>

theorem normalizePositions_origin_and_offsets_witness:
  "[lm_at (- 5) 3 True [], lm_at 10 7 False []] \<noteq> []
   \<and> Min (lm_x ` set (normalizePositions [lm_at (- 5) 3 True [], lm_at 10 7 False []])) = 0
   \<and> Min (lm_y ` set (normalizePositions [lm_at (- 5) 3 True [], lm_at 10 7 False []])) = 0
   \<and> normalizePositions [lm_at (- 5) 3 True [], lm_at 10 7 False []]
       = [lm_at 0 0 True [], lm_at 15 4 False []]"
proof -
  have ne: "[lm_at (- 5) 3 True [], lm_at 10 7 False []] \<noteq> []"
    by simp
  have val: "normalizePositions [lm_at (- 5) 3 True [], lm_at 10 7 False []]
       = [lm_at 0 0 True [], lm_at 15 4 False []]"
    by (simp add: normalizePositions_def shift_by_def lm_at_def)
  from normalizePositions_origin_and_offsets[OF ne] ne val show ?thesis
    by blast
qed

section \<open>Properties of fixPrimaryFlags\<close>

lemma length_fix_loop: "length (fix_loop first lms) = length lms"
  by (induction lms arbitrary: first) simp_all

lemma fix_loop_no_primary:
  "\<forall>lm\<in>set lms. \<not> lm_isPrimary lm \<Longrightarrow> fix_loop first lms = lms"
  by (induction lms arbitrary: first) simp_all

lemma fix_loop_True_id:
  "length (filter lm_isPrimary lms) \<le> 1 \<Longrightarrow> fix_loop True lms = lms"
proof (induction lms)
  case Nil
  show ?case by simp
next
  case (Cons lm rest)
  show ?case
  proof (cases "lm_isPrimary lm")
    case True
    with Cons.prems have "filter lm_isPrimary rest = []" by simp
    then have "\<forall>l\<in>set rest. \<not> lm_isPrimary l" by (simp add: filter_empty_conv)
    then show ?thesis using True by (simp add: fix_loop_no_primary)
  next
    case False
    with Cons show ?thesis by simp
  qed
qed

lemma fixPrimaryFlags_loop: "fixPrimaryFlags lms = fix_loop True lms"
  by (simp add: fixPrimaryFlags_def Let_def fix_loop_True_id)

lemma fix_loop_False_flag:
  "j < length lms \<Longrightarrow> \<not> lm_isPrimary (fix_loop False lms ! j)"
proof (induction lms arbitrary: j)
  case Nil
  then show ?case by simp
next
  case (Cons lm rest)
  then show ?case by (cases j) simp_all
qed

lemma fix_loop_True_flag:
  assumes "\<exists>lm\<in>set lms. lm_isPrimary lm" and "j < length lms"
  shows "lm_isPrimary (fix_loop True lms ! j)
         \<longleftrightarrow> j = length (takeWhile (\<lambda>lm. \<not> lm_isPrimary lm) lms)"
  using assms
proof (induction lms arbitrary: j)
  case Nil
  then show ?case by simp
next
  case (Cons lm rest)
  show ?case
  proof (cases "lm_isPrimary lm")
    case True
    then show ?thesis using Cons.prems(2)
      by (cases j) (simp_all add: fix_loop_False_flag)
  next
    case False
    with Cons.prems(1) have ex: "\<exists>l\<in>set rest. lm_isPrimary l" by simp
    show ?thesis
    proof (cases j)
      case 0
      with False show ?thesis by simp
    next
      case (Suc k)
      with Cons.prems(2) have "k < length rest" by simp
      from Cons.IH[OF ex this] False Suc show ?thesis by simp
    qed
  qed
qed

lemma fix_loop_False_count: "filter lm_isPrimary (fix_loop False lms) = []"
  by (induction lms) simp_all

lemma fix_loop_True_count:
  "\<exists>lm\<in>set lms. lm_isPrimary lm \<Longrightarrow> length (filter lm_isPrimary (fix_loop True lms)) = 1"
  by (induction lms) (auto simp: fix_loop_False_count)

lemma fix_loop_frame:
  "i < length lms \<Longrightarrow>
     fix_loop first lms ! i = lms ! i
     \<or> (lm_isPrimary (lms ! i) \<and> fix_loop first lms ! i = (lms ! i)\<lparr>lm_isPrimary := False\<rparr>)"
proof (induction lms arbitrary: first i)
  case Nil
  then show ?case by simp
next
  case (Cons lm rest)
  then show ?case by (cases i) simp_all
qed

lemma fix_loop_idem: "fix_loop True (fix_loop True lms) = fix_loop True lms"
proof (cases "\<exists>lm\<in>set lms. lm_isPrimary lm")
  case True
  then have "length (filter lm_isPrimary (fix_loop True lms)) \<le> 1"
    by (simp add: fix_loop_True_count)
  then show ?thesis by (rule fix_loop_True_id)
next
  case False
  then show ?thesis by (simp add: fix_loop_no_primary)
qed

lemma fixPrimaryFlags_funpow:
  "0 < n \<Longrightarrow> (fixPrimaryFlags ^^ n) lms = fix_loop True lms"
proof (induction n)
  case 0
  then show ?case by simp
next
  case (Suc n)
  show ?case
  proof (cases "n = 0")
    case True
    then show ?thesis by (simp add: fixPrimaryFlags_loop)
  next
    case False
    with Suc.IH have ih: "(fixPrimaryFlags ^^ n) lms = fix_loop True lms" by simp
    have "(fixPrimaryFlags ^^ Suc n) lms = fixPrimaryFlags ((fixPrimaryFlags ^^ n) lms)"
      by simp
    also have "\<dots> = fixPrimaryFlags (fix_loop True lms)"
      by (simp only: ih)
    also have "\<dots> = fix_loop True lms"
      by (simp only: fixPrimaryFlags_loop fix_loop_idem)
    finally show ?thesis .
  qed
qed

lemma first_primary_in_range:
  "\<exists>lm\<in>set lms. lm_isPrimary lm \<Longrightarrow>
     length (takeWhile (\<lambda>lm. \<not> lm_isPrimary lm) lms) < length lms"
  by (induction lms) auto

text \<open>
  Claim C3. For every list with at least one entry that has isPrimary set, applying
  \<open>fixPrimaryFlags\<close> \<open>n \<ge> 1\<close> times yields a list of the same length with exactly one
  entry that has isPrimary set, and that entry is the first entry of the input that had
  it set, unchanged and at its position (the length of the longest prefix without a
  primary).
\<close>

theorem fixPrimaryFlags_keeps_first_primary:
  assumes "\<exists>lm\<in>set lms. lm_isPrimary lm" and "0 < n"
  shows "length ((fixPrimaryFlags ^^ n) lms) = length lms
       \<and> length (filter lm_isPrimary ((fixPrimaryFlags ^^ n) lms)) = 1
       \<and> (\<forall>j<length lms. lm_isPrimary ((fixPrimaryFlags ^^ n) lms ! j)
             \<longleftrightarrow> j = length (takeWhile (\<lambda>lm. \<not> lm_isPrimary lm) lms))
       \<and> length (takeWhile (\<lambda>lm. \<not> lm_isPrimary lm) lms) < length lms
       \<and> lm_isPrimary (lms ! length (takeWhile (\<lambda>lm. \<not> lm_isPrimary lm) lms))
       \<and> (fixPrimaryFlags ^^ n) lms ! length (takeWhile (\<lambda>lm. \<not> lm_isPrimary lm) lms)
           = lms ! length (takeWhile (\<lambda>lm. \<not> lm_isPrimary lm) lms)"
proof -
  let ?k = "length (takeWhile (\<lambda>lm. \<not> lm_isPrimary lm) lms)"
  have r: "(fixPrimaryFlags ^^ n) lms = fix_loop True lms"
    using assms(2) by (rule fixPrimaryFlags_funpow)
  have first: "?k < length lms"
    using assms(1) by (rule first_primary_in_range)
  have was: "lm_isPrimary (lms ! ?k)"
    using nth_length_takeWhile[OF first] by simp
  have "lm_isPrimary (fix_loop True lms ! ?k)"
    using fix_loop_True_flag[OF assms(1) first] by simp
  with fix_loop_frame[OF first, of True] have same: "fix_loop True lms ! ?k = lms ! ?k"
    by auto
  from first was same show ?thesis
    using assms(1) by (simp add: r length_fix_loop fix_loop_True_count fix_loop_True_flag)
qed

text \<open>The theorem at a list with two primaries after a non-primary, repaired twice.\<close>

theorem fixPrimaryFlags_keeps_first_primary_witness:
  "(\<exists>lm\<in>set [lm_at 0 0 False [], lm_at 1 0 True [], lm_at 2 0 True []]. lm_isPrimary lm)
   \<and> (0::nat) < 2
   \<and> length (filter lm_isPrimary
         ((fixPrimaryFlags ^^ 2) [lm_at 0 0 False [], lm_at 1 0 True [], lm_at 2 0 True []])) = 1
   \<and> fixPrimaryFlags [lm_at 0 0 False [], lm_at 1 0 True [], lm_at 2 0 True []]
       = [lm_at 0 0 False [], lm_at 1 0 True [], lm_at 2 0 False []]"
proof -
  have ex: "\<exists>lm\<in>set [lm_at 0 0 False [], lm_at 1 0 True [], lm_at 2 0 True []]. lm_isPrimary lm"
    by (simp add: lm_at_def)
  have pos: "(0::nat) < 2"
    by simp
  have val: "fixPrimaryFlags [lm_at 0 0 False [], lm_at 1 0 True [], lm_at 2 0 True []]
       = [lm_at 0 0 False [], lm_at 1 0 True [], lm_at 2 0 False []]"
    by (simp add: fixPrimaryFlags_def lm_at_def)
  from fixPrimaryFlags_keeps_first_primary[OF ex pos] ex pos val show ?thesis
    by blast
qed

text \<open>
  Claim C10. \<open>fixPrimaryFlags\<close> returns its input unchanged when at most one entry has
  isPrimary set; in every case it neither adds nor removes an entry, and an entry it
  changes had isPrimary set and differs from the input only in isPrimary, now false.
\<close>

theorem fixPrimaryFlags_frame:
  "(length (filter lm_isPrimary lms) \<le> 1 \<longrightarrow> fixPrimaryFlags lms = lms)
   \<and> length (fixPrimaryFlags lms) = length lms
   \<and> (\<forall>i<length lms.
         fixPrimaryFlags lms ! i = lms ! i
         \<or> (lm_isPrimary (lms ! i)
             \<and> fixPrimaryFlags lms ! i = (lms ! i)\<lparr>lm_isPrimary := False\<rparr>))"
proof -
  have "length (filter lm_isPrimary lms) \<le> 1 \<longrightarrow> fixPrimaryFlags lms = lms"
    by (simp add: fixPrimaryFlags_def)
  moreover have "length (fixPrimaryFlags lms) = length lms"
    by (simp add: fixPrimaryFlags_loop length_fix_loop)
  moreover have "\<forall>i<length lms.
         fixPrimaryFlags lms ! i = lms ! i
         \<or> (lm_isPrimary (lms ! i)
             \<and> fixPrimaryFlags lms ! i = (lms ! i)\<lparr>lm_isPrimary := False\<rparr>)"
    using fix_loop_frame by (simp add: fixPrimaryFlags_loop)
  ultimately show ?thesis by blast
qed

text \<open>The theorem at a list with two primaries: the second entry alone is changed.\<close>

theorem fixPrimaryFlags_frame_witness:
  "length (fixPrimaryFlags [lm_at 0 0 True [], lm_at 1 0 True []]) = length [lm_at 0 0 True [], lm_at 1 0 True []]
   \<and> fixPrimaryFlags [lm_at 0 0 True [], lm_at 1 0 True []] ! 0 = lm_at 0 0 True []
   \<and> fixPrimaryFlags [lm_at 0 0 True [], lm_at 1 0 True []] ! 1
       = (lm_at 1 0 True [])\<lparr>lm_isPrimary := False\<rparr>"
proof -
  have val: "fixPrimaryFlags [lm_at 0 0 True [], lm_at 1 0 True []]
       = [lm_at 0 0 True [], (lm_at 1 0 True [])\<lparr>lm_isPrimary := False\<rparr>]"
    by (simp add: fixPrimaryFlags_def lm_at_def)
  from fixPrimaryFlags_frame[of "[lm_at 0 0 True [], lm_at 1 0 True []]"] val show ?thesis
    by simp
qed

section \<open>Frame facts of the state operations\<close>

lemma logging_fields [simp]:
  "t_proxy (logging f st) = t_proxy st"
  "t_calls (logging f st) = t_calls st"
  "t_snapshot (logging f st) = t_snapshot st"
  "t_monitors (logging f st) = t_monitors st"
  "t_logicalMonitors (logging f st) = t_logicalMonitors st"
  "t_monitor (logging f st) = t_monitor st"
  "t_serial (logging f st) = t_serial st"
  "t_persistenceMode (logging f st) = t_persistenceMode st"
  "t_layoutMode (logging f st) = t_layoutMode st"
  "t_supportsChangingLayoutMode (logging f st) = t_supportsChangingLayoutMode st"
  "t_indicator (logging f st) = t_indicator st"
  "t_toggling (logging f st) = t_toggling st"
  "t_settings_monitor (logging f st) = t_settings_monitor st"
  "t_logger (logging f st) = f (t_logger st)"
  by (simp_all add: logging_def)

lemma call_fields [simp]:
  "t_proxy (call c st) = t_proxy st"
  "t_calls (call c st) = t_calls st @ [c]"
  "t_snapshot (call c st) = t_snapshot st"
  "t_monitors (call c st) = t_monitors st"
  "t_logicalMonitors (call c st) = t_logicalMonitors st"
  "t_monitor (call c st) = t_monitor st"
  "t_serial (call c st) = t_serial st"
  "t_persistenceMode (call c st) = t_persistenceMode st"
  "t_indicator (call c st) = t_indicator st"
  "t_settings_monitor (call c st) = t_settings_monitor st"
  "t_logger (call c st) = t_logger st"
  by (simp_all add: call_def)

lemma destroy_fields [simp]:
  "t_proxy (destroy st) = False"
  "t_calls (destroy st) = t_calls st"
  "t_snapshot (destroy st) = []"
  by (simp_all add: destroy_def)

lemma disableToggle_fields [simp]:
  "t_proxy (disableToggle r st) = t_proxy st"
  "t_calls (disableToggle r st) = t_calls st"
  "t_snapshot (disableToggle r st) = t_snapshot st"
  by (simp_all add: disableToggle_def)

lemma scheduleConfigRefresh_fields [simp]:
  "t_proxy (scheduleConfigRefresh e b st) = t_proxy st"
  "t_calls (scheduleConfigRefresh e b st) = t_calls st"
  "t_snapshot (scheduleConfigRefresh e b st) = t_snapshot st"
  "t_logger (scheduleConfigRefresh e b st) = t_logger st"
  by (simp_all add: scheduleConfigRefresh_def)

lemma updateIndicatorVisibility_fields [simp]:
  "t_proxy (updateIndicatorVisibility st) = t_proxy st"
  "t_calls (updateIndicatorVisibility st) = t_calls st"
  "t_snapshot (updateIndicatorVisibility st) = t_snapshot st"
  "t_monitors (updateIndicatorVisibility st) = t_monitors st"
  "t_logicalMonitors (updateIndicatorVisibility st) = t_logicalMonitors st"
  "t_monitor (updateIndicatorVisibility st) = t_monitor st"
  "t_serial (updateIndicatorVisibility st) = t_serial st"
  "t_persistenceMode (updateIndicatorVisibility st) = t_persistenceMode st"
  "t_layoutMode (updateIndicatorVisibility st) = t_layoutMode st"
  "t_supportsChangingLayoutMode (updateIndicatorVisibility st) = t_supportsChangingLayoutMode st"
  by (simp_all add: updateIndicatorVisibility_def)

lemma sync_fields [simp]:
  "t_proxy (sync st) = t_proxy st"
  "t_calls (sync st) = t_calls st"
  "t_snapshot (sync st) = t_snapshot st"
  "t_monitors (sync st) = t_monitors st"
  "t_logicalMonitors (sync st) = t_logicalMonitors st"
  "t_monitor (sync st) = t_monitor st"
  "t_serial (sync st) = t_serial st"
  "t_persistenceMode (sync st) = t_persistenceMode st"
  "t_layoutMode (sync st) = t_layoutMode st"
  "t_supportsChangingLayoutMode (sync st) = t_supportsChangingLayoutMode st"
  by (simp_all add: sync_def)

lemma ingest_fields [simp]:
  "t_proxy (ingest serial ms lms lay spp st) = t_proxy st"
  "t_calls (ingest serial ms lms lay spp st) = t_calls st"
  "t_snapshot (ingest serial ms lms lay spp st)
     = (if allActive ms lms then snapshot_layout ms lms [] else t_snapshot st)"
  "t_monitors (ingest serial ms lms lay spp st) = ms"
  "t_logicalMonitors (ingest serial ms lms lay spp st) = lms"
  "t_serial (ingest serial ms lms lay spp st) = serial"
  "t_persistenceMode (ingest serial ms lms lay spp st) = t_persistenceMode st"
  by (simp_all add: ingest_def Let_def)

lemma holds_connector_fix_loop:
  "list_ex (holds_connector c) (fix_loop first lms) = list_ex (holds_connector c) lms"
  by (induction lms arbitrary: first) (simp_all add: holds_connector_def)

lemma holds_connector_fixPrimaryFlags:
  "list_ex (holds_connector c) (fixPrimaryFlags lms) = list_ex (holds_connector c) lms"
  by (simp add: fixPrimaryFlags_def Let_def holds_connector_fix_loop)

lemma allActive_fixPrimaryFlags:
  "allActive ms (fixPrimaryFlags lms) = allActive ms lms"
  by (simp add: allActive_def holds_connector_fixPrimaryFlags)

lemma getMonitorConfig_proxy [simp]:
  "t_proxy (getMonitorConfig reply st) = (t_proxy st \<and> \<not> fr_torn_down reply)"
  by (simp add: getMonitorConfig_def Let_def split: fetch_result.splits)

lemma getMonitorConfig_calls [simp]:
  "t_calls (getMonitorConfig reply st)
     = (if t_proxy st then t_calls st @ [GetCurrentState] else t_calls st)"
  by (simp add: getMonitorConfig_def Let_def split: fetch_result.splits)

lemma getMonitorConfig_snapshot:
  "t_snapshot (getMonitorConfig reply st)
     = (if \<not> t_proxy st then t_snapshot st
        else if fr_torn_down reply then []
        else (case fr_result reply of
                FetchFailed \<Rightarrow> t_snapshot st
              | Fetched serial ms lms lay spp \<Rightarrow>
                  if allActive ms lms then snapshot_layout ms (fixPrimaryFlags lms) []
                  else t_snapshot st))"
  by (simp add: getMonitorConfig_def Let_def allActive_fixPrimaryFlags split: fetch_result.splits)

section \<open>Properties of resolveModeId\<close>

text \<open>
  Claim C7, as the code has it. For a connector among the known physical monitors,
  \<open>resolveModeId\<close> returns the mode id recorded in the snapshot for the connector when
  that id is a non-empty string still offered by the physical monitor (the first one with
  that connector); otherwise the id of the first mode flagged current; otherwise the id
  of the first mode flagged preferred; otherwise the id of the first mode of the list. It
  returns no mode when the connector is not among the known physical monitors.
\<close>

theorem resolveModeId_priority:
  "(\<forall>p s mid. find (\<lambda>p. pm_connector p = conn) (t_monitors st) = Some p
        \<and> map_of (t_snapshot st) conn = Some s \<and> s_modeId s = Some mid \<and> mid \<noteq> []
        \<and> mid \<in> m_id ` set (pm_modes p)
      \<longrightarrow> resolveModeId st (Some conn) = Some mid)
   \<and> (\<forall>p cur. find (\<lambda>p. pm_connector p = conn) (t_monitors st) = Some p
        \<and> \<not> (\<exists>s mid. map_of (t_snapshot st) conn = Some s \<and> s_modeId s = Some mid
                \<and> mid \<noteq> [] \<and> mid \<in> m_id ` set (pm_modes p))
        \<and> find m_is_current (pm_modes p) = Some cur
      \<longrightarrow> resolveModeId st (Some conn) = Some (m_id cur))
   \<and> (\<forall>p pref. find (\<lambda>p. pm_connector p = conn) (t_monitors st) = Some p
        \<and> \<not> (\<exists>s mid. map_of (t_snapshot st) conn = Some s \<and> s_modeId s = Some mid
                \<and> mid \<noteq> [] \<and> mid \<in> m_id ` set (pm_modes p))
        \<and> find m_is_current (pm_modes p) = None
        \<and> find m_is_preferred (pm_modes p) = Some pref
      \<longrightarrow> resolveModeId st (Some conn) = Some (m_id pref))
   \<and> (\<forall>p first rest. find (\<lambda>p. pm_connector p = conn) (t_monitors st) = Some p
        \<and> \<not> (\<exists>s mid. map_of (t_snapshot st) conn = Some s \<and> s_modeId s = Some mid
                \<and> mid \<noteq> [] \<and> mid \<in> m_id ` set (pm_modes p))
        \<and> find m_is_current (pm_modes p) = None
        \<and> find m_is_preferred (pm_modes p) = None
        \<and> pm_modes p = first # rest
      \<longrightarrow> resolveModeId st (Some conn) = Some (m_id first))
   \<and> (conn \<notin> pm_connector ` set (t_monitors st) \<longrightarrow> resolveModeId st (Some conn) = None)"
proof -
  have offered: "list_ex (\<lambda>m. m_id m = mid) ms \<longleftrightarrow> mid \<in> m_id ` set ms"
    for mid :: mode_id and ms :: "mode list"
    by (auto simp: list_ex_iff)
  have a: "resolveModeId st (Some conn) = Some mid"
    if "find (\<lambda>p. pm_connector p = conn) (t_monitors st) = Some p"
      "map_of (t_snapshot st) conn = Some s" "s_modeId s = Some mid" "mid \<noteq> []"
      "mid \<in> m_id ` set (pm_modes p)" for p s mid
    using that by (simp add: resolveModeId_def offered)
  have skip: "resolveModeId st (Some conn)
      = (case find m_is_current (pm_modes p) of
           Some current \<Rightarrow> Some (m_id current)
         | None \<Rightarrow>
            (case find m_is_preferred (pm_modes p) of
               Some preferred \<Rightarrow> Some (m_id preferred)
             | None \<Rightarrow> (case pm_modes p of [] \<Rightarrow> None | first # rest \<Rightarrow> Some (m_id first))))"
    if "find (\<lambda>p. pm_connector p = conn) (t_monitors st) = Some p"
      "\<not> (\<exists>s mid. map_of (t_snapshot st) conn = Some s \<and> s_modeId s = Some mid
                \<and> mid \<noteq> [] \<and> mid \<in> m_id ` set (pm_modes p))" for p
  proof (cases "map_of (t_snapshot st) conn")
    case None
    with that(1) show ?thesis by (simp add: resolveModeId_def)
  next
    case (Some s)
    show ?thesis
    proof (cases "s_modeId s")
      case None
      with Some that(1) show ?thesis by (simp add: resolveModeId_def)
    next
      case (Some mid)
      with \<open>map_of (t_snapshot st) conn = Some s\<close> that(2)
      have "mid = [] \<or> mid \<notin> m_id ` set (pm_modes p)" by blast
      with Some \<open>map_of (t_snapshot st) conn = Some s\<close> that(1) show ?thesis
        by (auto simp: resolveModeId_def offered)
    qed
  qed
  have e: "resolveModeId st (Some conn) = None" if "conn \<notin> pm_connector ` set (t_monitors st)"
  proof -
    from that have "find (\<lambda>p. pm_connector p = conn) (t_monitors st) = None"
      by (auto simp: find_None_iff)
    then show ?thesis by (simp add: resolveModeId_def)
  qed
  show ?thesis
    using a e by (auto simp: skip)
qed

text \<open>The theorem in the scenario of the specification, after the first fetch: A resolves
  to its snapshot mode, and a connector C that is not reported resolves to no mode.\<close>

theorem resolveModeId_priority_witness:
  "resolveModeId st_AB (Some ''A'') = Some ''m1'' \<and> resolveModeId st_AB (Some ''C'') = None"
proof -
  have a: "find (\<lambda>p. pm_connector p = ''A'') (t_monitors st_AB)
             = Some (phys ''A'' [mode_cur ''m1'' 1920 1080])
      \<and> map_of (t_snapshot st_AB) ''A''
             = Some \<lparr>s_x = 0, s_y = 0, s_scale = 1, s_transform = 0, s_isPrimary = True,
                      s_modeId = Some ''m1''\<rparr>
      \<and> s_modeId \<lparr>s_x = 0, s_y = 0, s_scale = 1, s_transform = 0, s_isPrimary = True,
                    s_modeId = Some ''m1''\<rparr> = Some ''m1''
      \<and> ''m1'' \<noteq> []
      \<and> ''m1'' \<in> m_id ` set (pm_modes (phys ''A'' [mode_cur ''m1'' 1920 1080]))"
    by code_simp
  have e: "''C'' \<notin> pm_connector ` set (t_monitors st_AB)"
    by code_simp
  from resolveModeId_priority[of "''A''" st_AB] a
  have "resolveModeId st_AB (Some ''A'') = Some ''m1''"
    by blast
  moreover from resolveModeId_priority[of "''C''" st_AB] e
  have "resolveModeId st_AB (Some ''C'') = None"
    by blast
  ultimately show ?thesis by simp
qed

text \<open>
  Claim C7 as stated fails where the snapshot records the empty string as the mode id
  and the physical monitor still offers a mode with that id: the test \<open>snapMode && ...\<close>
  takes the empty string for no id, and the mode flagged current is returned instead.
\<close>

theorem resolveModeId_empty_id_counterexample:
  "find (\<lambda>p. pm_connector p = ''A'') (t_monitors st_empty_id)
     = Some (phys ''A'' [mode_off [] 800 600, mode_cur ''m2'' 1920 1080])
   \<and> map_of (t_snapshot st_empty_id) ''A'' = Some snap_empty_id
   \<and> s_modeId snap_empty_id = Some []
   \<and> [] \<in> m_id ` set (pm_modes (phys ''A'' [mode_off [] 800 600, mode_cur ''m2'' 1920 1080]))
   \<and> resolveModeId st_empty_id (Some ''A'') = Some ''m2''
   \<and> resolveModeId st_empty_id (Some ''A'') \<noteq> s_modeId snap_empty_id"
  by code_simp

section \<open>The snapshot store\<close>

lemma snapshot_put_keys:
  "map fst (snapshot_put conn s acc)
     = (if conn \<in> fst ` set acc then map fst acc else map fst acc @ [conn])"
proof (induction acc)
  case Nil
  show ?case by simp
next
  case (Cons e rest)
  obtain k v where e: "e = (k, v)" by (cases e)
  show ?case
  proof (cases "k = conn")
    case True
    then show ?thesis by (simp add: e)
  next
    case False
    with Cons.IH show ?thesis by (simp add: e)
  qed
qed

lemma snapshot_put_distinct:
  "distinct (map fst acc) \<Longrightarrow> distinct (map fst (snapshot_put conn s acc))"
  by (simp add: snapshot_put_keys)

lemma snapshot_monitors_distinct:
  "distinct (map fst acc) \<Longrightarrow> distinct (map fst (snapshot_monitors ms lm mons acc))"
  by (induction mons arbitrary: acc) (simp_all add: snapshot_put_distinct)

lemma snapshot_layout_distinct:
  "distinct (map fst acc) \<Longrightarrow> distinct (map fst (snapshot_layout ms lms acc))"
  by (induction lms arbitrary: acc) (simp_all add: snapshot_monitors_distinct)

lemma submit_layout_snapshot:
  "t_snapshot (submit_layout c isActive reply st)
     = (if t_proxy st \<and> sr_torn_down reply then [] else t_snapshot st)"
  by (simp add: submit_layout_def Let_def)

lemma submit_layout_calls:
  "t_calls (submit_layout c isActive reply st)
     = (if t_proxy st then t_calls st @ [c] else t_calls st)"
  by (simp add: submit_layout_def Let_def)

lemma abort_run_calls:
  "t_calls (abort_run reason refetch st)
     = (if t_proxy st then t_calls st @ [GetCurrentState] else t_calls st)"
  by (simp add: abort_run_def)

lemma run_end_fields [simp]:
  "t_calls (run_end st) = t_calls st"
  "t_snapshot (run_end st) = t_snapshot st"
  by (simp_all add: run_end_def)

lemma run_start_fields [simp]:
  "t_calls (run_start st) = t_calls st"
  "t_snapshot (run_start st) = t_snapshot st"
  "t_proxy (run_start st) = t_proxy st"
  by (simp_all add: run_start_def)

lemma getMonitorConfig_snapshot_cong:
  "t_proxy st = t_proxy st' \<Longrightarrow> t_snapshot st = t_snapshot st' \<Longrightarrow>
     t_snapshot (getMonitorConfig reply st) = t_snapshot (getMonitorConfig reply st')"
  by (simp add: getMonitorConfig_snapshot split: fetch_result.splits)

lemma abort_run_snapshot:
  "t_snapshot (abort_run reason refetch (logging f st)) = t_snapshot (getMonitorConfig refetch st)"
  unfolding abort_run_def by (rule getMonitorConfig_snapshot_cong) simp_all

lemma plan_and_submit_snapshot_disable:
  assumes "t_proxy st" and "selected_active st" and "\<not> sr_torn_down (e_submit env)"
  shows "t_snapshot (plan_and_submit env st)
     = (case disable_branch st of
          Candidate lms \<Rightarrow>
            if finalize st lms = []
            then t_snapshot (getMonitorConfig (e_refetch env) st)
            else t_snapshot st
        | NoMonitorsLeft \<Rightarrow> t_snapshot (getMonitorConfig (e_refetch env) st)
        | other \<Rightarrow> t_snapshot st)"
  using assms
  by (simp add: plan_and_submit_def build_candidate_def Let_def submit_layout_snapshot
      abort_run_snapshot split: candidate.splits)

text \<open>
  Claim C8. While the toggle is not torn down, a fetch changes the snapshot only when it
  succeeds and the connector of every physical monitor it reports is held by some logical
  monitor it reports; a failed fetch and a fetch without full coverage leave the snapshot
  as it was. A run of \<open>_toggleMonitor\<close> that disables the selected connector leaves the
  snapshot as its fetch left it when it submits a layout, and as its re-fetch leaves it
  when it aborts: planning and submission do not touch the snapshot.
\<close>

theorem snapshot_overwritten_only_under_full_coverage:
  assumes "\<not> fr_torn_down reply"
  shows "(t_snapshot (getMonitorConfig reply st) \<noteq> t_snapshot st \<longrightarrow>
            (\<exists>serial ms lms lay spp. fr_result reply = Fetched serial ms lms lay spp
               \<and> (\<forall>p\<in>set ms. \<exists>lm\<in>set lms. pm_connector p \<in> mon_connector ` set (lm_monitors lm))))
       \<and> (\<not> sr_torn_down (e_submit env) \<and> t_proxy st \<and> \<not> t_toggling st
            \<and> e_fetch env = reply \<and> selected_active (fetched env st) \<longrightarrow>
            t_snapshot (toggleMonitor env st)
              = (if (\<exists>lms. disable_branch (fetched env st) = Candidate lms
                          \<and> finalize (fetched env st) lms \<noteq> [])
                 then t_snapshot (fetched env st)
                 else t_snapshot (getMonitorConfig (e_refetch env) (fetched env st))))"
proof -
  have cover: "allActive ms lms \<Longrightarrow>
      \<forall>p\<in>set ms. \<exists>lm\<in>set lms. pm_connector p \<in> mon_connector ` set (lm_monitors lm)"
    for ms lms
    unfolding allActive_def list_all_iff list_ex_iff holds_connector_def
    by (simp add: image_iff) metis
  have one: "t_snapshot (getMonitorConfig reply st) \<noteq> t_snapshot st \<longrightarrow>
            (\<exists>serial ms lms lay spp. fr_result reply = Fetched serial ms lms lay spp
               \<and> (\<forall>p\<in>set ms. \<exists>lm\<in>set lms. pm_connector p \<in> mon_connector ` set (lm_monitors lm)))"
    using assms cover
    by (auto simp: getMonitorConfig_snapshot split: fetch_result.splits if_splits)
  have two: "t_snapshot (toggleMonitor env st)
              = (if (\<exists>lms. disable_branch (fetched env st) = Candidate lms
                          \<and> finalize (fetched env st) lms \<noteq> [])
                 then t_snapshot (fetched env st)
                 else t_snapshot (getMonitorConfig (e_refetch env) (fetched env st)))"
    if h: "\<not> sr_torn_down (e_submit env)" "t_proxy st" "\<not> t_toggling st"
      "e_fetch env = reply" "selected_active (fetched env st)"
  proof -
    have p: "t_proxy (fetched env st)"
      using h assms by (simp add: fetched_def)
    have "disable_branch (fetched env st) = NoMonitorsLeft
          \<or> (\<exists>lms. disable_branch (fetched env st) = Candidate lms)"
      by (simp add: disable_branch_def Let_def)
    then show ?thesis
      using h(2,3) plan_and_submit_snapshot_disable[OF p h(5) h(1)]
      by (auto simp: toggleMonitor_def)
  qed
  from one two show ?thesis by blast
qed

text \<open>
  The theorem at the scenario of the specification: the first fetch has full coverage
  and writes the snapshot, and the run that disables B leaves it as that fetch wrote it.
\<close>

theorem snapshot_overwritten_only_under_full_coverage_witness:
  "\<not> fr_torn_down (answer 7 monitors_AB layout_AB)
   \<and> t_snapshot (getMonitorConfig (answer 7 monitors_AB layout_AB) (init (logger0 True) 1 ''B''))
       \<noteq> t_snapshot (init (logger0 True) 1 ''B'')
   \<and> (\<exists>serial ms lms lay spp.
         fr_result (answer 7 monitors_AB layout_AB) = Fetched serial ms lms lay spp
         \<and> (\<forall>p\<in>set ms. \<exists>lm\<in>set lms. pm_connector p \<in> mon_connector ` set (lm_monitors lm)))
   \<and> t_snapshot (toggleMonitor env_disable_B (init (logger0 True) 1 ''B''))
       = t_snapshot (fetched env_disable_B (init (logger0 True) 1 ''B''))"
proof -
  let ?st = "init (logger0 True) 1 ''B''"
  have live: "\<not> fr_torn_down (answer 7 monitors_AB layout_AB)"
    by code_simp
  have changed: "t_snapshot (getMonitorConfig (answer 7 monitors_AB layout_AB) ?st) \<noteq> t_snapshot ?st"
    by code_simp
  have run: "\<not> sr_torn_down (e_submit env_disable_B) \<and> t_proxy ?st \<and> \<not> t_toggling ?st
      \<and> e_fetch env_disable_B = answer 7 monitors_AB layout_AB
      \<and> selected_active (fetched env_disable_B ?st)"
    by code_simp
  have "case disable_branch (fetched env_disable_B ?st) of
          Candidate lms \<Rightarrow> finalize (fetched env_disable_B ?st) lms \<noteq> []
        | _ \<Rightarrow> False"
    by code_simp
  then have submits: "\<exists>lms. disable_branch (fetched env_disable_B ?st) = Candidate lms
      \<and> finalize (fetched env_disable_B ?st) lms \<noteq> []"
    by (cases "disable_branch (fetched env_disable_B ?st)") simp_all
  from snapshot_overwritten_only_under_full_coverage[OF live, of ?st env_disable_B]
    changed run submits live
  show ?thesis
    by (simp only: simp_thms if_True)
qed

section \<open>The calls of a run\<close>

lemma plan_and_submit_calls:
  "t_calls (plan_and_submit env st)
     = t_calls st @
       (if \<not> t_proxy st then []
        else (case build_candidate env st of
                NoMonitorsLeft \<Rightarrow> [GetCurrentState]
              | PhysicalMonitorNotFound \<Rightarrow> []
              | NoModeForMonitor \<Rightarrow> []
              | DividedByZero \<Rightarrow> [ApplyAfterDivisionByZero]
              | Candidate lms \<Rightarrow>
                  if finalize st lms = [] then [GetCurrentState]
                  else [ApplyMonitorsConfig (t_serial st) (t_persistenceMode st)
                          (normalizePositions (finalize st lms)) (propertiesToApply st)]))"
  by (simp add: plan_and_submit_def Let_def submit_layout_calls abort_run_calls
      split: candidate.splits)

lemma fetched_calls:
  "t_calls (fetched env st) = (if t_proxy st then t_calls st @ [GetCurrentState] else t_calls st)"
  by (simp add: fetched_def)

lemma fetched_proxy:
  "t_proxy (fetched env st) = (t_proxy st \<and> \<not> fr_torn_down (e_fetch env))"
  by (simp add: fetched_def)

lemma toggleMonitor_calls:
  "t_calls (toggleMonitor env st)
     = (if \<not> t_proxy st \<or> t_toggling st then t_calls st
        else t_calls (plan_and_submit env (fetched env st)))"
  by (simp add: toggleMonitor_def)

lemma normalizePositions_Nil_iff:
  "normalizePositions lms = [] \<longleftrightarrow> lms = []"
  "[] = normalizePositions lms \<longleftrightarrow> lms = []"
proof -
  show "normalizePositions lms = [] \<longleftrightarrow> lms = []"
  proof (cases "lms = []")
    case True
    then show ?thesis by (simp add: normalizePositions_def)
  next
    case False
    then show ?thesis by (simp add: normalizePositions_shift)
  qed
  then show "[] = normalizePositions lms \<longleftrightarrow> lms = []"
    by (metis (full_types))
qed




section \<open>Primary flags of a submitted layout\<close>





lemma length_promote_first [simp]: "length (promote_first lms) = length lms"
  by (cases lms) (simp_all add: promote_first_def)

lemma promote_first_Nil_iff [simp]: "promote_first lms = [] \<longleftrightarrow> lms = []"
  by (cases lms) (simp_all add: promote_first_def)

lemma fixPrimaryFlags_Nil_iff [simp]: "fixPrimaryFlags lms = [] \<longleftrightarrow> lms = []"
  by (metis length_fix_loop length_0_conv fixPrimaryFlags_loop)


subsection \<open>Finalization keeps an enable candidate\<close>

lemma resolved_iff:
  "resolved st lm \<longleftrightarrow>
     (\<exists>conn modeId. lm_monitors lm = [Assignment conn modeId] \<and> lm_properties lm = []
        \<and> resolveModeId st (Some conn) = Some modeId \<and> modeId \<noteq> [])"
proof
  assume r: "resolved st lm"
  then obtain m ms where ms: "lm_monitors lm = m # ms"
    by (cases "lm_monitors lm") (simp_all add: resolved_def reresolve_def first_connector_def)
  with r obtain modeId where mid: "resolveModeId st (Some (mon_connector m)) = Some modeId"
    by (cases "resolveModeId st (Some (mon_connector m))")
       (simp_all add: resolved_def reresolve_def first_connector_def)
  from r ms mid have ne: "modeId \<noteq> []"
    by (auto simp: resolved_def reresolve_def first_connector_def split: if_splits)
  from r ms mid ne
  have eq: "lm\<lparr>lm_monitors := [Assignment (mon_connector m) modeId], lm_properties := []\<rparr> = lm"
    by (simp add: resolved_def reresolve_def first_connector_def)
  from arg_cong[OF eq, of lm_monitors] arg_cong[OF eq, of lm_properties]
  have "lm_monitors lm = [Assignment (mon_connector m) modeId]" "lm_properties lm = []"
    by simp_all
  with mid ne show "\<exists>conn modeId. lm_monitors lm = [Assignment conn modeId] \<and> lm_properties lm = []
        \<and> resolveModeId st (Some conn) = Some modeId \<and> modeId \<noteq> []"
    by blast
next
  assume "\<exists>conn modeId. lm_monitors lm = [Assignment conn modeId] \<and> lm_properties lm = []
        \<and> resolveModeId st (Some conn) = Some modeId \<and> modeId \<noteq> []"
  then obtain conn modeId where h: "lm_monitors lm = [Assignment conn modeId]"
      "lm_properties lm = []" "resolveModeId st (Some conn) = Some modeId" "modeId \<noteq> []"
    by blast
  have "lm\<lparr>lm_monitors := lm_monitors lm, lm_properties := lm_properties lm\<rparr> = lm"
    by simp
  with h show "resolved st lm"
    by (simp add: resolved_def reresolve_def first_connector_def)
qed


lemma finalize_resolved: "list_all (resolved st) lms \<Longrightarrow> finalize st lms = lms"
  by (induction lms) (simp_all add: finalize_def List.map_filter_simps resolved_def)












subsection \<open>Flags through a filtering map\<close>








lemma to_origin_length [simp]: "length (to_origin lms) = length lms"
  by (cases lms) (simp_all add: to_origin_def)

lemma to_origin_Nil_iff [simp]: "to_origin lms = [] \<longleftrightarrow> lms = []"
  by (cases lms) (simp_all add: to_origin_def)





lemma length_normalizePositions [simp]: "length (normalizePositions lms) = length lms"
proof (cases "lms = []")
  case True
  then show ?thesis by (simp add: normalizePositions_def)
next
  case False
  then show ?thesis by (simp add: normalizePositions_shift)
qed

text \<open>What a run that fetches and submits has done.\<close>

lemma toggleMonitor_submits:
  assumes "t_calls (toggleMonitor env st)
             = t_calls st @ [GetCurrentState, ApplyMonitorsConfig serial pm layout props]"
  shows "\<exists>lms. build_candidate env (fetched env st) = Candidate lms
           \<and> finalize (fetched env st) lms \<noteq> []
           \<and> layout = normalizePositions (finalize (fetched env st) lms)"
  using assms
  by (auto simp: toggleMonitor_calls plan_and_submit_calls fetched_calls fetched_proxy
      split: if_splits candidate.splits)






section \<open>What the runs log\<close>

lemma emit_enabled [simp]: "lg_enabled (emit lvl e d lg) = lg_enabled lg"
  by (simp add: emit_def)

lemma emit_disabled: "\<not> lg_enabled lg \<Longrightarrow> emit lvl e d lg = lg"
  by (simp add: emit_def)

lemma error_lines_emit:
  "length (error_lines (emit lvl e d lg))
     = length (error_lines lg) + (if lg_enabled lg \<and> lvl = ERROR then 1 else 0)"
  by (simp add: emit_def error_lines_def)

lemma log_ops_enabled [simp]:
  "lg_enabled (logDebug e d lg) = lg_enabled lg"
  "lg_enabled (logInfo e d lg) = lg_enabled lg"
  "lg_enabled (logError e d lg) = lg_enabled lg"
  "lg_enabled (logStep d lg) = lg_enabled lg"
  "lg_enabled (nextOpId lg) = lg_enabled lg"
  by (simp_all add: logDebug_def logInfo_def logError_def logStep_def nextOpId_def)

lemma log_ops_errors [simp]:
  "length (error_lines (logDebug e d lg)) = length (error_lines lg)"
  "length (error_lines (logInfo e d lg)) = length (error_lines lg)"
  "length (error_lines (logError e d lg))
     = length (error_lines lg) + (if lg_enabled lg then 1 else 0)"
  "length (error_lines (logStep d lg)) = length (error_lines lg)"
  "length (error_lines (nextOpId lg)) = length (error_lines lg)"
  by (simp_all add: logDebug_def logInfo_def logError_def logStep_def nextOpId_def
      error_lines_emit) (simp add: error_lines_def)


lemma raw_update_obs [simp]:
  "errors (st\<lparr>t_toggling := a\<rparr>) = errors st"
  "debug_logging (st\<lparr>t_toggling := a\<rparr>) = debug_logging st"
  "console (st\<lparr>t_toggling := a\<rparr>) = console st"
  "errors (st\<lparr>t_checked := a\<rparr>) = errors st"
  "debug_logging (st\<lparr>t_checked := a\<rparr>) = debug_logging st"
  "console (st\<lparr>t_checked := a\<rparr>) = console st"
  "errors (st\<lparr>t_sensitive := a\<rparr>) = errors st"
  "debug_logging (st\<lparr>t_sensitive := a\<rparr>) = debug_logging st"
  "console (st\<lparr>t_sensitive := a\<rparr>) = console st"
  "errors (st\<lparr>t_subtitle := s\<rparr>) = errors st"
  "debug_logging (st\<lparr>t_subtitle := s\<rparr>) = debug_logging st"
  "console (st\<lparr>t_subtitle := s\<rparr>) = console st"
  "errors (st\<lparr>t_primaryDialogTimeoutId := a\<rparr>) = errors st"
  "debug_logging (st\<lparr>t_primaryDialogTimeoutId := a\<rparr>) = debug_logging st"
  "console (st\<lparr>t_primaryDialogTimeoutId := a\<rparr>) = console st"
  by (simp_all add: errors_def debug_logging_def console_def)

lemma logging_obs [simp]:
  "debug_logging (logging (logDebug e d) st) = debug_logging st"
  "debug_logging (logging (logInfo e d) st) = debug_logging st"
  "debug_logging (logging (logError e d) st) = debug_logging st"
  "debug_logging (logging (logStep d) st) = debug_logging st"
  "debug_logging (logging nextOpId st) = debug_logging st"
  "errors (logging (logDebug e d) st) = errors st"
  "errors (logging (logInfo e d) st) = errors st"
  "errors (logging (logError e d) st) = errors st + (if debug_logging st then 1 else 0)"
  "errors (logging (logStep d) st) = errors st"
  "errors (logging nextOpId st) = errors st"
  by (simp_all add: errors_def debug_logging_def)


lemma call_obs [simp]:
  "errors (call c st) = errors st"
  "debug_logging (call c st) = debug_logging st"
  "console (call c st) = console st"
  by (simp_all add: errors_def debug_logging_def console_def)

lemma destroy_obs [simp]:
  "errors (destroy st) = errors st"
  "debug_logging (destroy st) = debug_logging st"
  by (simp_all add: destroy_def) (simp_all add: errors_def debug_logging_def)


lemma disableToggle_obs [simp]:
  "debug_logging (disableToggle r st) = debug_logging st"
  "errors (disableToggle r st) = errors st + (if t_proxy st \<and> debug_logging st then 1 else 0)"
  by (simp_all add: disableToggle_def)


lemma scheduleConfigRefresh_obs [simp]:
  "errors (scheduleConfigRefresh e b st) = errors st"
  "debug_logging (scheduleConfigRefresh e b st) = debug_logging st"
  "console (scheduleConfigRefresh e b st) = console st"
  by (simp_all add: errors_def debug_logging_def console_def)

lemma updateIndicatorVisibility_obs [simp]:
  "errors (updateIndicatorVisibility st) = errors st"
  "debug_logging (updateIndicatorVisibility st) = debug_logging st"
  by (simp_all add: updateIndicatorVisibility_def)


lemma sync_obs [simp]:
  "errors (sync st) = errors st"
  "debug_logging (sync st) = debug_logging st"
  by (simp_all add: sync_def)


lemma ingest_obs [simp]:
  "errors (ingest serial ms lms lay spp st) = errors st"
  "debug_logging (ingest serial ms lms lay spp st) = debug_logging st"
  by (simp_all add: ingest_def Let_def)
     (simp_all add: errors_def debug_logging_def)


lemma getMonitorConfig_obs:
  "debug_logging (getMonitorConfig reply st) = debug_logging st"
  "errors (getMonitorConfig reply st)
     = errors st + (if t_proxy st \<and> \<not> fr_torn_down reply \<and> fr_result reply = FetchFailed
                       \<and> debug_logging st then 2 else 0)"
  by (simp_all add: getMonitorConfig_def Let_def split: fetch_result.splits)


lemma submit_layout_obs:
  "debug_logging (submit_layout c a reply st) = debug_logging st"
  "errors (submit_layout c a reply st)
     = errors st + (if t_proxy st \<and> \<not> sr_torn_down reply \<and> \<not> sr_applied reply
                       \<and> debug_logging st then 2 else 0)"
  by (simp_all add: submit_layout_def Let_def)


lemma abort_run_obs:
  "debug_logging (abort_run reason refetch st) = debug_logging st"
  "errors (abort_run reason refetch st)
     = errors st + (if debug_logging st then 1 else 0)
       + (if t_proxy st \<and> \<not> fr_torn_down refetch \<and> fr_result refetch = FetchFailed
             \<and> debug_logging st then 2 else 0)"
  by (simp_all add: abort_run_def getMonitorConfig_obs)




lemma plan_and_submit_errors_ge: "errors st \<le> errors (plan_and_submit env st)"
  by (simp add: plan_and_submit_def Let_def submit_layout_obs abort_run_obs
      split: candidate.splits)



lemma run_obs [simp]:
  "errors (run_start st) = errors st"
  "debug_logging (run_start st) = debug_logging st"
  "errors (run_end st) = errors st"
  "debug_logging (run_end st) = debug_logging st"
  by (simp_all add: run_start_def run_end_def)









lemma timeout_fired_dialog_errors:
  "errors (timeout_fired (primaryDialog_callback throws) st)
     = errors st + (if t_proxy st \<and> throws \<and> debug_logging st then 1 else 0)"
  by (simp add: timeout_fired_def primaryDialog_callback_def Let_def)








section \<open>The fallback placement\<close>





lemma resolveModeId_known:
  "resolveModeId st (Some conn) = Some modeId \<Longrightarrow>
     \<exists>p. find (\<lambda>p. pm_connector p = conn) (t_monitors st) = Some p"
  by (cases "find (\<lambda>p. pm_connector p = conn) (t_monitors st)")
     (simp_all add: resolveModeId_def)




section \<open>Disable, then enable\<close>

lemma resolveModeId_snapshot_mode:
  assumes "find (\<lambda>p. pm_connector p = conn) (t_monitors st) = Some p"
    and "map_of (t_snapshot st) conn = Some s" and "s_modeId s = Some mid" and "mid \<noteq> []"
    and "mid \<in> m_id ` set (pm_modes p)"
  shows "resolveModeId st (Some conn) = Some mid"
proof -
  from assms(5) have "list_ex (\<lambda>m. m_id m = mid) (pm_modes p)"
    by (auto simp: list_ex_iff)
  with assms(1-4) show ?thesis
    by (simp add: resolveModeId_def)
qed

lemma fetched_fields:
  assumes "t_proxy st" "\<not> fr_torn_down (e_fetch env)"
    and "fr_result (e_fetch env) = Fetched serial ms lms lay spp"
  shows "t_monitors (fetched env st) = ms"
    and "t_logicalMonitors (fetched env st) = fixPrimaryFlags lms"
    and "t_snapshot (fetched env st)
           = (if allActive ms lms then snapshot_layout ms (fixPrimaryFlags lms) []
              else t_snapshot st)"
    and "truthy (t_monitor st) \<Longrightarrow> t_monitor (fetched env st) = t_monitor st"
    and "t_serial (fetched env st) = serial"
  using assms
  by (simp_all add: fetched_def getMonitorConfig_def run_start_def Let_def ingest_def
      select_monitor_def allActive_fixPrimaryFlags)

lemma submit_layout_kept:
  assumes "\<not> sr_torn_down reply"
  shows "t_proxy (submit_layout c a reply st) = t_proxy st"
    and "t_snapshot (submit_layout c a reply st) = t_snapshot st"
    and "t_monitor (submit_layout c a reply st) = t_monitor st"
  using assms
  by (simp_all add: submit_layout_def Let_def scheduleConfigRefresh_def disableToggle_def
      updateIndicatorVisibility_def logging_def call_def)

lemma toggleMonitor_after_submit:
  assumes "\<not> sr_torn_down (e_submit env)"
    and "t_calls (toggleMonitor env st)
           = t_calls st @ [GetCurrentState, ApplyMonitorsConfig serial pm layout props]"
  shows "t_proxy (toggleMonitor env st)"
    and "\<not> t_toggling (toggleMonitor env st)"
    and "t_snapshot (toggleMonitor env st) = t_snapshot (fetched env st)"
    and "t_monitor (toggleMonitor env st) = t_monitor (fetched env st)"
proof -
  from assms(2) have live: "t_proxy st" "\<not> t_toggling st" "t_proxy (fetched env st)"
    by (auto simp: toggleMonitor_calls plan_and_submit_calls fetched_calls fetched_proxy
        split: if_splits)
  from toggleMonitor_submits[OF assms(2)] obtain lms where
    c: "build_candidate env (fetched env st) = Candidate lms"
      "finalize (fetched env st) lms \<noteq> []"
    by blast
  have run: "toggleMonitor env st = run_end (plan_and_submit env (fetched env st))"
    using live by (simp add: toggleMonitor_def)
  have ps: "t_proxy (plan_and_submit env (fetched env st))"
    "t_snapshot (plan_and_submit env (fetched env st)) = t_snapshot (fetched env st)"
    "t_monitor (plan_and_submit env (fetched env st)) = t_monitor (fetched env st)"
    using live(3) c assms(1)
    by (simp_all add: plan_and_submit_def Let_def submit_layout_kept)
  show "t_proxy (toggleMonitor env st)" "\<not> t_toggling (toggleMonitor env st)"
    "t_snapshot (toggleMonitor env st) = t_snapshot (fetched env st)"
    "t_monitor (toggleMonitor env st) = t_monitor (fetched env st)"
    using ps by (simp_all add: run run_end_def logging_def)
qed

text \<open>The logical monitor the enable branch builds from a snapshot entry.\<close>

lemma restore_entry_resolved:
  assumes "resolveModeId st (Some conn) = Some modeId" "modeId \<noteq> []"
  shows "restore_entry st (conn, s)
           = Some \<lparr>lm_x = s_x s, lm_y = s_y s, lm_scale = s_scale s,
                    lm_transform = s_transform s, lm_isPrimary = s_isPrimary s,
                    lm_monitors = [Assignment conn modeId], lm_properties = []\<rparr>"
proof -
  from resolveModeId_known[OF assms(1)] have "list_ex (\<lambda>p. pm_connector p = conn) (t_monitors st)"
    by (auto simp: list_ex_iff find_Some_iff)
  with assms show ?thesis by (simp add: restore_entry_def)
qed

lemma normalizePositions_two_at_origin:
  assumes "min (lm_x a) (lm_x b) = 0" "min (lm_y a) (lm_y b) = 0"
  shows "normalizePositions [a, b] = [a, b]"
  using assms by (auto simp: normalizePositions_def min_def split: if_splits)

lemma repair_two_one_primary:
  assumes "lm_isPrimary a \<noteq> lm_isPrimary b"
  shows "promote_first (fixPrimaryFlags [a, b]) = [a, b]"
  using assms by (auto simp: fixPrimaryFlags_def promote_first_def)

lemma enable_from_two_entry_snapshot:
  assumes snap: "t_snapshot st = [(c1, s1), (c2, s2)]"
    and sel: "t_monitor st = Some c1 \<or> t_monitor st = Some c2"
    and inactive: "\<not> selected_active st"
    and m1: "resolveModeId st (Some c1) = Some mode1" "mode1 \<noteq> []"
    and m2: "resolveModeId st (Some c2) = Some mode2" "mode2 \<noteq> []"
    and prim: "s_isPrimary s1 \<noteq> s_isPrimary s2"
    and origin: "min (s_x s1) (s_x s2) = 0" "min (s_y s1) (s_y s2) = 0"
  shows "build_candidate env st
           = Candidate
               [\<lparr>lm_x = s_x s1, lm_y = s_y s1, lm_scale = s_scale s1,
                  lm_transform = s_transform s1, lm_isPrimary = s_isPrimary s1,
                  lm_monitors = [Assignment c1 mode1], lm_properties = []\<rparr>,
                \<lparr>lm_x = s_x s2, lm_y = s_y s2, lm_scale = s_scale s2,
                  lm_transform = s_transform s2, lm_isPrimary = s_isPrimary s2,
                  lm_monitors = [Assignment c2 mode2], lm_properties = []\<rparr>]"
    (is "_ = Candidate [?e1, ?e2]")
    and "normalizePositions (finalize st
           [\<lparr>lm_x = s_x s1, lm_y = s_y s1, lm_scale = s_scale s1,
              lm_transform = s_transform s1, lm_isPrimary = s_isPrimary s1,
              lm_monitors = [Assignment c1 mode1], lm_properties = []\<rparr>,
            \<lparr>lm_x = s_x s2, lm_y = s_y s2, lm_scale = s_scale s2,
              lm_transform = s_transform s2, lm_isPrimary = s_isPrimary s2,
              lm_monitors = [Assignment c2 mode2], lm_properties = []\<rparr>])
         = [\<lparr>lm_x = s_x s1, lm_y = s_y s1, lm_scale = s_scale s1,
              lm_transform = s_transform s1, lm_isPrimary = s_isPrimary s1,
              lm_monitors = [Assignment c1 mode1], lm_properties = []\<rparr>,
            \<lparr>lm_x = s_x s2, lm_y = s_y s2, lm_scale = s_scale s2,
              lm_transform = s_transform s2, lm_isPrimary = s_isPrimary s2,
              lm_monitors = [Assignment c2 mode2], lm_properties = []\<rparr>]"
proof -
  have has: "hasSnapshot st"
    using snap sel by (auto simp: hasSnapshot_def snapshot_of_selected_def)
  have restore: "restore_from_snapshot st = [?e1, ?e2]"
    by (simp add: restore_from_snapshot_def snap List.map_filter_simps
        restore_entry_resolved[OF m1] restore_entry_resolved[OF m2])
  have repair: "promote_first (fixPrimaryFlags [?e1, ?e2]) = [?e1, ?e2]"
    by (rule repair_two_one_primary) (simp add: prim)
  show "build_candidate env st = Candidate [?e1, ?e2]"
    using inactive has by (simp add: build_candidate_def enable_branch_def restore repair)
  have "resolved st ?e1" "resolved st ?e2"
    using m1 m2 by (simp_all add: resolved_iff)
  then have "finalize st [?e1, ?e2] = [?e1, ?e2]"
    by (intro finalize_resolved) simp
  moreover have "normalizePositions [?e1, ?e2] = [?e1, ?e2]"
    by (rule normalizePositions_two_at_origin) (simp_all add: origin)
  ultimately show "normalizePositions (finalize st [?e1, ?e2]) = [?e1, ?e2]"
    by simp
qed

lemma toggleMonitor_enable_from_snapshot:
  assumes live: "t_proxy st" "\<not> t_toggling st" "t_proxy (fetched env st)"
    and cand: "build_candidate env (fetched env st) = Candidate lms"
    and final: "normalizePositions (finalize (fetched env st) lms) = layout" "layout \<noteq> []"
  shows "t_calls (toggleMonitor env st)
           = t_calls st @ [GetCurrentState,
               ApplyMonitorsConfig (t_serial (fetched env st)) (t_persistenceMode (fetched env st))
                 layout (propertiesToApply (fetched env st))]"
proof -
  from final have "finalize (fetched env st) lms \<noteq> []"
    by (auto simp: normalizePositions_Nil_iff)
  with live cand final(1) show ?thesis
    by (simp add: toggleMonitor_calls plan_and_submit_calls fetched_calls)
qed

text \<open>
  Claim C1, as the code has it. Let the fetch of a first run leave a snapshot of exactly
  two connectors A and B, A selected and active, and let the run submit its disable
  layout. Let the fetch of the next run report A as held by no logical monitor, with A's
  snapshot mode id a non-empty string still offered by A's physical monitor and B's mode
  resolving. If exactly one of the two snapshot entries is primary and the smaller
  recorded x and the smaller recorded y are 0, the second run submits a layout of two
  logical monitors, one for A and one for B, each with exactly the x, y, scale, transform
  and isPrimary recorded for it in the snapshot.
\<close>

theorem disable_enable_round_trip:
  assumes snap: "t_snapshot (fetched env1 st0) = [(A, sA), (B, sB)]
                 \<or> t_snapshot (fetched env1 st0) = [(B, sB), (A, sA)]"
    and names: "A \<noteq> B" "A \<noteq> []"
    and sel: "t_monitor (fetched env1 st0) = Some A"
    and disable: "selected_active (fetched env1 st0)" "\<not> sr_torn_down (e_submit env1)"
      "t_calls (toggleMonitor env1 st0)
         = t_calls st0 @ [GetCurrentState, ApplyMonitorsConfig serial1 pm1 layout1 props1]"
    and fetch2: "\<not> fr_torn_down (e_fetch env2)"
      "fr_result (e_fetch env2) = Fetched serial2 ms2 lms2 lay2 spp2"
    and inactive: "\<not> list_ex (holds_connector (Some A)) lms2"
    and offered: "find (\<lambda>p. pm_connector p = A) ms2 = Some pA" "s_modeId sA = Some mA"
      "mA \<noteq> []" "mA \<in> m_id ` set (pm_modes pA)"
    and other: "resolveModeId (fetched env2 (toggleMonitor env1 st0)) (Some B) = Some mB"
      "mB \<noteq> []"
    and prim: "s_isPrimary sA \<noteq> s_isPrimary sB"
    and origin: "min (s_x sA) (s_x sB) = 0" "min (s_y sA) (s_y sB) = 0"
  shows "\<exists>pm layout props.
           t_calls (toggleMonitor env2 (toggleMonitor env1 st0))
             = t_calls (toggleMonitor env1 st0)
               @ [GetCurrentState, ApplyMonitorsConfig serial2 pm layout props]
           \<and> length layout = 2
           \<and> \<lparr>lm_x = s_x sA, lm_y = s_y sA, lm_scale = s_scale sA,
                lm_transform = s_transform sA, lm_isPrimary = s_isPrimary sA,
                lm_monitors = [Assignment A mA], lm_properties = []\<rparr> \<in> set layout
           \<and> \<lparr>lm_x = s_x sB, lm_y = s_y sB, lm_scale = s_scale sB,
                lm_transform = s_transform sB, lm_isPrimary = s_isPrimary sB,
                lm_monitors = [Assignment B mB], lm_properties = []\<rparr> \<in> set layout"
proof -
  let ?st1 = "toggleMonitor env1 st0"
  let ?f2 = "fetched env2 ?st1"
  let ?eA = "\<lparr>lm_x = s_x sA, lm_y = s_y sA, lm_scale = s_scale sA,
                lm_transform = s_transform sA, lm_isPrimary = s_isPrimary sA,
                lm_monitors = [Assignment A mA], lm_properties = []\<rparr>"
  let ?eB = "\<lparr>lm_x = s_x sB, lm_y = s_y sB, lm_scale = s_scale sB,
                lm_transform = s_transform sB, lm_isPrimary = s_isPrimary sB,
                lm_monitors = [Assignment B mB], lm_properties = []\<rparr>"
  note after = toggleMonitor_after_submit[OF disable(2,3)]
  have st1: "t_proxy ?st1" "\<not> t_toggling ?st1" "t_monitor ?st1 = Some A"
    "t_snapshot ?st1 = t_snapshot (fetched env1 st0)"
    using after sel by simp_all
  from offered(1) have pA: "pA \<in> set ms2" "pm_connector pA = A"
    by (auto simp: find_Some_iff in_set_conv_nth)
  have uncovered: "\<not> allActive ms2 lms2"
    using pA inactive by (auto simp: allActive_def list_all_iff)
  have truthy: "truthy (t_monitor ?st1)"
    using st1(3) names(2) by simp
  note f = fetched_fields[OF st1(1) fetch2]
  have f2: "t_proxy ?f2" "t_monitors ?f2 = ms2" "t_monitor ?f2 = Some A"
    "t_snapshot ?f2 = t_snapshot (fetched env1 st0)" "t_serial ?f2 = serial2"
    using f(1,3,5) f(4)[OF truthy] st1 fetch2(1) uncovered
    by (simp_all add: fetched_proxy)
  have na: "\<not> selected_active ?f2"
    using inactive by (simp add: selected_active_def f2(3) f(2) holds_connector_fixPrimaryFlags)
  have mapA: "map_of (t_snapshot ?f2) A = Some sA"
    using snap names(1) by (auto simp: f2(4))
  have rA: "resolveModeId ?f2 (Some A) = Some mA"
    using offered(1) mapA offered(2,3,4)
    by (intro resolveModeId_snapshot_mode) (simp_all add: f2(2))
  from snap show ?thesis
  proof
    assume s: "t_snapshot (fetched env1 st0) = [(A, sA), (B, sB)]"
    have s2: "t_snapshot ?f2 = [(A, sA), (B, sB)]" by (simp add: f2(4) s)
    note e = enable_from_two_entry_snapshot[OF s2 _ na rA offered(3) other prim origin]
    have c: "build_candidate env2 ?f2 = Candidate [?eA, ?eB]"
      by (rule e(1)) (simp add: f2(3))
    have n: "normalizePositions (finalize ?f2 [?eA, ?eB]) = [?eA, ?eB]"
      by (rule e(2)) (simp add: f2(3))
    from toggleMonitor_enable_from_snapshot[OF st1(1,2) f2(1) c n]
    show ?thesis by (simp add: f2(5))
  next
    assume s: "t_snapshot (fetched env1 st0) = [(B, sB), (A, sA)]"
    have s2: "t_snapshot ?f2 = [(B, sB), (A, sA)]" by (simp add: f2(4) s)
    have prim': "s_isPrimary sB \<noteq> s_isPrimary sA" using prim by blast
    have origin': "min (s_x sB) (s_x sA) = 0" "min (s_y sB) (s_y sA) = 0"
      using origin by (simp_all add: min.commute)
    note e = enable_from_two_entry_snapshot[OF s2 _ na other rA offered(3) prim' origin']
    have c: "build_candidate env2 ?f2 = Candidate [?eB, ?eA]"
      by (rule e(1)) (simp add: f2(3))
    have n: "normalizePositions (finalize ?f2 [?eB, ?eA]) = [?eB, ?eA]"
      by (rule e(2)) (simp add: f2(3))
    from toggleMonitor_enable_from_snapshot[OF st1(1,2) f2(1) c n]
    show ?thesis by (simp add: f2(5))
  qed
qed

text \<open>
  The theorem in the scenario of the specification: B is disabled, then enabled again,
  and comes back at (1920, 0), not primary, as the snapshot recorded it.
\<close>

theorem disable_enable_round_trip_witness:
  "t_snapshot (fetched env_disable_B (init (logger0 True) 1 ''B''))
     = [(''A'', snap_A), (''B'', snap_B)]
   \<and> selected_active (fetched env_disable_B (init (logger0 True) 1 ''B''))
   \<and> s_modeId snap_B = Some ''m2''
   \<and> (\<exists>pm layout props.
         t_calls (toggleMonitor env_enable_B (toggleMonitor env_disable_B (init (logger0 True) 1 ''B'')))
           = t_calls (toggleMonitor env_disable_B (init (logger0 True) 1 ''B''))
             @ [GetCurrentState, ApplyMonitorsConfig 8 pm layout props]
         \<and> length layout = 2
         \<and> \<lparr>lm_x = s_x snap_B, lm_y = s_y snap_B, lm_scale = s_scale snap_B,
              lm_transform = s_transform snap_B, lm_isPrimary = s_isPrimary snap_B,
              lm_monitors = [Assignment ''B'' ''m2''], lm_properties = []\<rparr> \<in> set layout
         \<and> \<lparr>lm_x = s_x snap_A, lm_y = s_y snap_A, lm_scale = s_scale snap_A,
              lm_transform = s_transform snap_A, lm_isPrimary = s_isPrimary snap_A,
              lm_monitors = [Assignment ''A'' ''m1''], lm_properties = []\<rparr> \<in> set layout)"
proof -
  let ?st0 = "init (logger0 True) 1 ''B''"
  have snap: "t_snapshot (fetched env_disable_B ?st0) = [(''A'', snap_A), (''B'', snap_B)]"
    by code_simp
  then have snap': "t_snapshot (fetched env_disable_B ?st0) = [(''B'', snap_B), (''A'', snap_A)]
      \<or> t_snapshot (fetched env_disable_B ?st0) = [(''A'', snap_A), (''B'', snap_B)]"
    by simp
  have names: "''B'' \<noteq> ''A''" "''B'' \<noteq> []"
    by simp_all
  have sel: "t_monitor (fetched env_disable_B ?st0) = Some ''B''"
    by code_simp
  have active: "selected_active (fetched env_disable_B ?st0)"
    by code_simp
  have live: "\<not> sr_torn_down (e_submit env_disable_B)"
    by code_simp
  have calls: "t_calls (toggleMonitor env_disable_B ?st0)
      = t_calls ?st0 @ [GetCurrentState,
          ApplyMonitorsConfig 7 1 [lm_at 0 0 True [Assignment ''A'' ''m1'']] []]"
    by code_simp
  have fetch2: "\<not> fr_torn_down (e_fetch env_enable_B)"
    "fr_result (e_fetch env_enable_B)
       = Fetched 8 monitors_AB [lm_at 0 0 True [spec_of ''A'']] None None"
    by code_simp+
  have inactive: "\<not> list_ex (holds_connector (Some ''B'')) [lm_at 0 0 True [spec_of ''A'']]"
    by code_simp
  have offered: "find (\<lambda>p. pm_connector p = ''B'') monitors_AB
                   = Some (phys ''B'' [mode_cur ''m2'' 1920 1080])"
    "s_modeId snap_B = Some ''m2''" "''m2'' \<noteq> []"
    "''m2'' \<in> m_id ` set (pm_modes (phys ''B'' [mode_cur ''m2'' 1920 1080]))"
    by code_simp+
  have other: "resolveModeId (fetched env_enable_B (toggleMonitor env_disable_B ?st0)) (Some ''A'')
                 = Some ''m1''" "''m1'' \<noteq> []"
    by code_simp+
  have prim: "s_isPrimary snap_B \<noteq> s_isPrimary snap_A"
    by code_simp
  have origin: "min (s_x snap_B) (s_x snap_A) = 0" "min (s_y snap_B) (s_y snap_A) = 0"
    by code_simp+
  from disable_enable_round_trip[OF snap' names sel active live calls fetch2 inactive offered
      other prim origin] snap active offered(2)
  show ?thesis by blast
qed

text \<open>
  Claim C1 as stated fails where A and B mirror each other in one primary logical
  monitor: the snapshot records both as primary at (0, 0), B's snapshot mode is still
  offered, and after B is disabled and enabled again the primary-flag repair keeps A as
  the primary and submits B with isPrimary false.
\<close>

theorem mirrored_round_trip_counterexample:
  "t_snapshot st_mirror_B_disabled = [(''A'', snap_mirror ''m1''), (''B'', snap_mirror ''m2'')]
   \<and> s_isPrimary (snap_mirror ''m2'') = True
   \<and> s_modeId (snap_mirror ''m2'') = Some ''m2''
   \<and> ''m2'' \<in> m_id ` set (pm_modes (phys ''B'' [mode_cur ''m2'' 1920 1080]))
   \<and> t_calls st_mirror_B_disabled
       = [GetCurrentState, ApplyMonitorsConfig 7 1 [lm_at 0 0 True [Assignment ''A'' ''m1'']] []]
   \<and> t_calls (toggleMonitor env_enable_B st_mirror_B_disabled)
       = t_calls st_mirror_B_disabled
         @ [GetCurrentState,
            ApplyMonitorsConfig 8 1
              [lm_at 0 0 True [Assignment ''A'' ''m1''],
               lm_at 0 0 False [Assignment ''B'' ''m2'']] []]"
  by code_simp

end
